theory Spec2Isabelle
  imports Main "HOL-Library.Word"
begin

section \<open>Python values, exceptions and log records\<close>

text \<open>
  An exception object. The handlers of the program are written \<open>except Exception\<close> and
  call \<open>str(e)\<close>, so an exception is told apart by what these two do with it (the two
  handlers written \<open>except json.JSONDecodeError\<close> go by the name of the class).
  \<open>Exn c m\<close> is an instance of a class named \<open>c\<close> that derives from \<open>Exception\<close>,
  with \<open>str(e) = m\<close>. \<open>BaseExn c m\<close> is an instance of a class that derives from
  \<open>BaseException\<close> but not from \<open>Exception\<close> (\<open>SystemExit\<close>,
  \<open>KeyboardInterrupt\<close>, \<open>asyncio.CancelledError\<close>, a class of that kind written by
  an evaluated expression); it passes through such a handler. \<open>BadStr c e'\<close> is an
  instance of a class deriving from \<open>Exception\<close> whose \<open>__str__\<close> raises \<open>e'\<close>; such
  a class is written by an evaluated expression and is none of the library's.
\<close>

datatype exn =
    Exn (exn_class: string) string
  | BaseExn (exn_class: string) string
  | BadStr (exn_class: string) exn

fun is_Exception :: "exn \<Rightarrow> bool" where
  "is_Exception (Exn c m) = True"
| "is_Exception (BaseExn c m) = False"
| "is_Exception (BadStr c e) = True"

text \<open>\<open>str(e)\<close>: the text, or what \<open>__str__\<close> raises.\<close>

fun str_exn :: "exn \<Rightarrow> exn + string" where
  "str_exn (Exn c m) = Inr m"
| "str_exn (BaseExn c m) = Inr m"
| "str_exn (BadStr c e) = Inl e"

text \<open>
  The values that travel through the dispatcher. A float is kept as its 64-bit pattern, no
  float arithmetic is modelled. \<open>PObject c attrs\<close> is an instance of class \<open>c\<close> with
  the attributes \<open>attrs\<close> (for example \<open>TextContent\<close>); \<open>PCoroutine r\<close> is a coroutine
  object whose \<open>await\<close> has the outcome \<open>r\<close>, \<open>None\<close> when the \<open>await\<close> never completes.
\<close>

datatype pyval =
    PNone
  | PBool bool
  | PInt int
  | PFloat "64 word"
  | PStr string
  | PList "pyval list"
  | PDict "(string \<times> pyval) list"
  | PObject string "(string \<times> pyval) list"
  | PCoroutine "(exn + pyval) option"

type_synonym kwargs = "(string \<times> pyval) list"

text \<open>
  What the run leaves behind besides its result: the records of the \<open>logging\<close> module
  (\<open>Info\<close> for \<open>logger.info\<close>, \<open>LogException\<close> for \<open>logger.exception\<close>, each with the
  message template and the interpolated values) and one \<open>Call\<close> per executed tool callable.
  Output of \<open>print\<close> is left out of the events.
\<close>

datatype event =
    Info string "pyval list"
  | LogException string "pyval list" exn
  | Call string kwargs

fun is_Call :: "event \<Rightarrow> bool" where
  "is_Call (Call n a) = True"
| "is_Call _ = False"

section \<open>Python string operations\<close>

text \<open>
  A \<open>str\<close> is modelled as a \<open>string\<close>, one \<open>char\<close> per code point below 256.
  \<open>is_space\<close> lists the code points below 256 that \<open>str.strip()\<close> removes.
\<close>

definition is_space :: "char \<Rightarrow> bool" where
  "is_space c = (c \<in> set [CHR 0x09, CHR 0x0A, CHR 0x0B, CHR 0x0C, CHR 0x0D,
     CHR 0x1C, CHR 0x1D, CHR 0x1E, CHR 0x1F, CHR 0x20, CHR 0x85, CHR 0xA0])"

definition strip_with :: "(char \<Rightarrow> bool) \<Rightarrow> string \<Rightarrow> string" where
  "strip_with P s = rev (dropWhile P (rev (dropWhile P s)))"

definition py_strip :: "string \<Rightarrow> string" where
  "py_strip s = strip_with is_space s"

definition strip_chars :: "string \<Rightarrow> string \<Rightarrow> string" where
  "strip_chars cs s = strip_with (\<lambda>c. c \<in> set cs) s"

fun split_on :: "char \<Rightarrow> string \<Rightarrow> string list" where
  "split_on c [] = [[]]"
| "split_on c (x # xs) =
     (if x = c then [] # split_on c xs
      else (case split_on c xs of [] \<Rightarrow> [[x]] | w # ws \<Rightarrow> (x # w) # ws))"

definition split_once :: "char \<Rightarrow> string \<Rightarrow> string list" where
  "split_once c s =
     (if c \<in> set s then [takeWhile (\<lambda>x. x \<noteq> c) s, tl (dropWhile (\<lambda>x. x \<noteq> c) s)] else [s])"

definition startswith :: "string \<Rightarrow> string \<Rightarrow> bool" where
  "startswith p s = (take (length p) s = p)"

definition endswith :: "string \<Rightarrow> string \<Rightarrow> bool" where
  "endswith p s = (length p \<le> length s \<and> drop (length s - length p) s = p)"

fun contains :: "string \<Rightarrow> string \<Rightarrow> bool" where
  "contains sub [] = (sub = [])"
| "contains sub (x # xs) = (startswith sub (x # xs) \<or> contains sub xs)"

definition count_char :: "char \<Rightarrow> string \<Rightarrow> nat" where
  "count_char c s = length (filter (\<lambda>x. x = c) s)"

definition digit_char :: "nat \<Rightarrow> char" where
  "digit_char d = ''0123456789'' ! d"

fun str_nat :: "nat \<Rightarrow> string" where
  "str_nat n = (if n < 10 then [digit_char n] else str_nat (n div 10) @ [digit_char (n mod 10)])"

declare str_nat.simps [simp del]

definition join_with :: "string \<Rightarrow> string list \<Rightarrow> string" where
  "join_with sep xs = concat (case xs of [] \<Rightarrow> [] | y # ys \<Rightarrow> y # map (\<lambda>z. sep @ z) ys)"

section \<open>The dispatcher: \<open>Action.act\<close>\<close>

text \<open>
  A registered tool, as \<open>act\<close> sees it: the parameter names of \<open>inspect.signature\<close>,
  whether \<open>asyncio.iscoroutinefunction\<close> holds, and the callable itself. \<open>call t kw\<close> is
  the outcome of the \<open>await\<close> with which \<open>act\<close> executes the tool: for a coroutine
  function \<open>await tool(**kw)\<close>, for a synchronous one
  \<open>await loop.run_in_executor(None, lambda: tool(**kw))\<close>. It is the value the \<open>await\<close>
  yields or the exception it raises (also the \<open>TypeError\<close> of Python for an argument that
  is missing), and \<open>None\<close> when the \<open>await\<close> never completes. How the executor and the
  future of \<open>asyncio\<close> turn what happens in the worker thread into that outcome is the
  library's and is not modelled: what the \<open>await\<close> raises need not be what the body of the
  tool raised, and the \<open>await\<close> may stay pending although the body has ended (as it does
  when the body of a synchronous tool raises \<open>StopIteration\<close>).
\<close>

record tool =
  parameters :: "string list"
  is_coroutine_function :: bool
  call :: "kwargs \<Rightarrow> (exn + pyval) option"

datatype params = PosParams "pyval list" | NamedParams kwargs

fun dict_set :: "string \<Rightarrow> pyval \<Rightarrow> kwargs \<Rightarrow> kwargs" where
  "dict_set k v [] = [(k, v)]"
| "dict_set k v ((k', v') # d) = (if k' = k then (k, v) # d else (k', v') # dict_set k v d)"

fun type_name :: "pyval \<Rightarrow> string" where
  "type_name PNone = ''NoneType''"
| "type_name (PBool b) = ''bool''"
| "type_name (PInt i) = ''int''"
| "type_name (PFloat f) = ''float''"
| "type_name (PStr s) = ''str''"
| "type_name (PList xs) = ''list''"
| "type_name (PDict d) = ''dict''"
| "type_name (PObject c attrs) = c"
| "type_name (PCoroutine r) = ''coroutine''"

definition quoted :: "string \<Rightarrow> string" where
  "quoted s = CHR 0x27 # s @ [CHR 0x27]"

fun dict_get :: "pyval \<Rightarrow> string \<Rightarrow> pyval \<Rightarrow> exn + pyval" where
  "dict_get (PDict d) k dflt = Inr (case map_of d k of None \<Rightarrow> dflt | Some v \<Rightarrow> v)"
| "dict_get v k dflt =
     Inl (Exn ''AttributeError'' (quoted (type_name v) @ '' object has no attribute '' @ quoted ''get''))"

text \<open>
  The conversion of a string \<open>"[x, y, z]"\<close> to a list, which the source writes out three
  times (twice in \<open>act\<close>, once in \<open>int_list_to_exponential_sum\<close>) with the same text:
  \<open>value.strip('[]')\<close>, then \<open>item.strip().strip("'\"")\<close> on every part of the split.
\<close>

definition parse_list_string :: "string \<Rightarrow> pyval" where
  "parse_list_string s =
     (let clean_list = strip_chars ''[]'' s
      in if clean_list \<noteq> []
         then PList (map (\<lambda>item. PStr (strip_chars [CHR 0x27, CHR 0x22] (py_strip item)))
                (split_on (CHR '','') clean_list))
         else PList [])"

definition looks_like_list :: "pyval \<Rightarrow> bool" where
  "looks_like_list v = (case v of PStr s \<Rightarrow> startswith ''['' s \<and> endswith '']'' s | _ \<Rightarrow> False)"

text \<open>Dictionary parameters: every name is checked against the signature, values are stored as they are.\<close>

fun bind_named :: "string \<Rightarrow> string list \<Rightarrow> kwargs \<Rightarrow> kwargs \<Rightarrow> exn + kwargs" where
  "bind_named func_name sig_params [] arguments = Inr arguments"
| "bind_named func_name sig_params ((name, v) # rest) arguments =
     (if name \<notin> set sig_params
      then Inl (Exn ''ValueError'' (''Unknown parameter '' @ name @ '' for '' @ func_name))
      else bind_named func_name sig_params rest (dict_set name v arguments))"

text \<open>List parameters, normal handling: the loop over \<open>zip(param_names, params)\<close>.\<close>

fun bind_positional :: "(string \<times> pyval) list \<Rightarrow> kwargs \<Rightarrow> kwargs" where
  "bind_positional [] arguments = arguments"
| "bind_positional ((name, v) # rest) arguments =
     bind_positional rest
       (dict_set name (case v of PStr s \<Rightarrow> (if looks_like_list v then parse_list_string s else v)
                                | _ \<Rightarrow> v) arguments)"

text \<open>
  The single parameter of \<open>int_list_to_exponential_sum\<close>. \<open>loads\<close> is \<open>json.loads\<close> of
  the standard library, taken as given; only a \<open>JSONDecodeError\<close> is caught here.
\<close>

definition single_value :: "(string \<Rightarrow> exn + pyval) \<Rightarrow> pyval \<Rightarrow> event list \<times> (exn + pyval)" where
  \<open>single_value loads v =
     (case v of
        PStr s \<Rightarrow>
          if startswith ''['' s \<and> endswith '']'' s
          then (let v' = parse_list_string s in ([Info ''DEBUG: Parsed list value: {}'' [v']], Inr v'))
          else if startswith ''{'' s \<and> contains ''"numbers"'' s
          then (case loads s of
                  Inr data \<Rightarrow>
                    (case dict_get data ''numbers'' (PList []) of
                       Inl e \<Rightarrow> ([], Inl e)
                     | Inr v' \<Rightarrow> ([Info ''DEBUG: Parsed JSON value: {}'' [v']], Inr v'))
                | Inl e \<Rightarrow>
                    if exn_class e = ''JSONDecodeError''
                    then (case str_exn e of
                            Inl e' \<Rightarrow> ([], Inl e')
                          | Inr m \<Rightarrow> ([Info ''Failed to parse JSON parameter: {}'' [PStr m]], Inr v))
                    else ([], Inl e))
          else ([], Inr v)
      | _ \<Rightarrow> ([], Inr v))\<close>

definition normalize ::
  "(string \<Rightarrow> exn + pyval) \<Rightarrow> string \<Rightarrow> tool \<Rightarrow> params \<Rightarrow> event list \<times> (exn + kwargs)" where
  "normalize loads func_name t ps =
     (case ps of
        NamedParams d \<Rightarrow> ([], bind_named func_name (parameters t) d [])
      | PosParams xs \<Rightarrow>
          (let param_names = filter (\<lambda>n. n \<noteq> ''self'') (parameters t)
           in if func_name = ''int_list_to_exponential_sum'' \<and> length param_names = 1
              then
                (let evs = [Info ''DEBUG: Special handling for int_list_to_exponential_sum'' [],
                            Info ''DEBUG: Raw params: {}'' [PList xs],
                            Info ''DEBUG: Param count: {}'' [PInt (int (length xs))]]
                 in if length xs > 1
                    then (let arguments = [(hd param_names, PList xs)]
                          in (evs @ [Info ''DEBUG: Combining multiple params into list'' [],
                                Info ''DEBUG: Final arguments for int_list_to_exponential_sum: {}''
                                  [PDict arguments]],
                              Inr arguments))
                    else (case xs of
                            [] \<Rightarrow> (evs, Inl (Exn ''IndexError'' ''list index out of range''))
                          | v # _ \<Rightarrow>
                              (let evs1 = evs @ [Info ''DEBUG: Single param value: {}'' [v],
                                                 Info ''DEBUG: Value type: {}'' [PStr (type_name v)]]
                               in case single_value loads v of
                                    (evs2, Inl e) \<Rightarrow> (evs1 @ evs2, Inl e)
                                  | (evs2, Inr v') \<Rightarrow>
                                      (let arguments = [(hd param_names, v')]
                                       in (evs1 @ evs2 @
                                            [Info ''DEBUG: Final arguments for int_list_to_exponential_sum: {}''
                                               [PDict arguments]],
                                           Inr arguments)))))
              else if length xs \<noteq> length param_names
              then ([], Inl (Exn ''ValueError'' (''Expected '' @ str_nat (length param_names)
                       @ '' parameters for '' @ func_name @ '', got '' @ str_nat (length xs))))
              else ([], Inr (bind_positional (zip param_names xs) []))))"

text \<open>
  The inner \<open>try\<close> block. A coroutine function is awaited and the value is assigned to
  \<open>result\<close>; the \<open>return result\<close> of the source stands inside the \<open>else\<close> branch, so on
  this path control leaves the block without a \<open>return\<close> and \<open>act\<close> ends with \<open>None\<close>.
  The run of a synchronous tool in the executor is awaited; a coroutine it hands back is
  awaited once. The result is \<open>None\<close> when an \<open>await\<close> never completes.
\<close>

definition invoke :: "tool \<Rightarrow> kwargs \<Rightarrow> (exn + pyval) option" where
  "invoke t arguments =
     (if is_coroutine_function t
      then (case call t arguments of
              None \<Rightarrow> None
            | Some (Inl e) \<Rightarrow> Some (Inl e)
            | Some (Inr result) \<Rightarrow> Some (Inr PNone))
      else (case call t arguments of
              None \<Rightarrow> None
            | Some (Inl e) \<Rightarrow> Some (Inl e)
            | Some (Inr maybe) \<Rightarrow>
                (case maybe of
                   PCoroutine r \<Rightarrow> r
                 | _ \<Rightarrow> Some (Inr maybe))))"

text \<open>
  The inner handler: \<open>logger.exception(f"Error while calling tool {func_name}")\<close>, then
  \<open>raise\<close>. It is entered for an exception that derives from \<open>Exception\<close> only.
\<close>

definition log_if_Exception :: "string \<Rightarrow> pyval list \<Rightarrow> exn \<Rightarrow> event list" where
  "log_if_Exception msg vals e = (if is_Exception e then [LogException msg vals e] else [])"

text \<open>The body of the outer \<open>try\<close>; \<open>func_map\<close> is the dictionary of \<open>Action.__init__\<close>.\<close>

definition act_body ::
  "(string \<times> tool) list \<Rightarrow> (string \<Rightarrow> exn + pyval) \<Rightarrow> string \<Rightarrow> params
     \<Rightarrow> event list \<times> (exn + pyval) option" where
  "act_body func_map loads func_name ps =
     (case map_of func_map func_name of
        None \<Rightarrow>
          ([Info ''DEBUG: Available tools: {}'' [PList (map (\<lambda>kv. PStr (fst kv)) func_map)]],
           Some (Inl (Exn ''ValueError'' (''Unknown tool: '' @ func_name))))
      | Some t \<Rightarrow>
          (case normalize loads func_name t ps of
             (evs, Inl e) \<Rightarrow> (evs, Some (Inl e))
           | (evs, Inr arguments) \<Rightarrow>
               (let evs1 = evs @ [Info ''DEBUG: Final arguments: {}'' [PDict arguments],
                                  Info ''DEBUG: Calling tool {}'' [PStr func_name],
                                  Call func_name arguments]
                in case invoke t arguments of
                     None \<Rightarrow> (evs1, None)
                   | Some (Inl e) \<Rightarrow>
                       (evs1 @ log_if_Exception ''Error while calling tool {}'' [PStr func_name] e,
                        Some (Inl e))
                   | Some (Inr result) \<Rightarrow> (evs1, Some (Inr result)))))"

text \<open>
  The outer handler: \<open>logger.exception(f"Error in act method for tool {func_name}: {str(e)}")\<close>,
  then \<open>raise\<close>. When \<open>str(e)\<close> raises, nothing is logged and that exception leaves
  \<open>act\<close> in place of \<open>e\<close>.
\<close>

definition act_handler :: "string \<Rightarrow> exn \<Rightarrow> event list \<times> exn" where
  "act_handler func_name e =
     (if is_Exception e
      then (case str_exn e of
              Inl e' \<Rightarrow> ([], e')
            | Inr m \<Rightarrow>
                ([LogException ''Error in act method for tool {}: {}'' [PStr func_name, PStr m] e], e))
      else ([], e))"

text \<open>
  \<open>act\<close>: the events, and the value returned or the exception raised; \<open>None\<close> when
  \<open>act\<close> never returns because an \<open>await\<close> in it never completes.
\<close>

definition act ::
  "(string \<times> tool) list \<Rightarrow> (string \<Rightarrow> exn + pyval) \<Rightarrow> string \<Rightarrow> params
     \<Rightarrow> event list \<times> (exn + pyval) option" where
  "act func_map loads func_name ps =
     (case act_body func_map loads func_name ps of
        (evs, None) \<Rightarrow> (evs, None)
      | (evs, Some (Inl e)) \<Rightarrow> (evs @ fst (act_handler func_name e), Some (Inl (snd (act_handler func_name e))))
      | (evs, Some (Inr result)) \<Rightarrow> (evs, Some (Inr result)))"

text \<open>
  The registry built by \<open>Action.__init__\<close>: the keys of \<open>func_map\<close> in their order, with
  the parameter names of the method each key is bound to (all are static methods, none has a
  \<open>self\<close>) and whether it is declared \<open>async def\<close>. The bodies are the parameter \<open>impl\<close>.
\<close>

definition signatures :: "(string \<times> string list \<times> bool) list" where
  "signatures =
     [(''add'', [''a'', ''b''], False),
      (''add_list'', [''numbers''], False),
      (''subtract'', [''a'', ''b''], False),
      (''multiply'', [''a'', ''b''], False),
      (''divide'', [''a'', ''b''], False),
      (''power'', [''a'', ''b''], False),
      (''sqrt'', [''a''], False),
      (''cbrt'', [''a''], False),
      (''factorial'', [''a''], False),
      (''log'', [''a''], False),
      (''remainder'', [''a'', ''b''], False),
      (''sin'', [''a''], False),
      (''cos'', [''a''], False),
      (''tan'', [''a''], False),
      (''strings_to_chars_to_int'', [''text''], False),
      (''int_list_to_exponential_sum'', [''int_list''], False),
      (''fibonacci_numbers'', [''n''], False),
      (''show_reasoning'', [''steps''], False),
      (''calculate'', [''expression''], False),
      (''verify'', [''expression'', ''expected''], False),
      (''create_image_with_text'', [''text'', ''filename''], False),
      (''open_image_in_preview'', [''filename''], False),
      (''send_email'', [''text''], True)]"

definition Action_func_map :: "(string \<Rightarrow> kwargs \<Rightarrow> (exn + pyval) option) \<Rightarrow> (string \<times> tool) list" where
  "Action_func_map impl =
     map (\<lambda>(n, ps, a). (n, \<lparr>parameters = ps, is_coroutine_function = a, call = impl n\<rparr>)) signatures"

section \<open>The tool \<open>int_list_to_exponential_sum\<close>\<close>

text \<open>
  The repair of a truncated JSON text in \<open>int_list_to_exponential_sum\<close>. A negative
  repeat count of Python gives the empty string, as the truncating subtraction does here.
\<close>

definition complete_json :: "string \<Rightarrow> string" where
  \<open>complete_json int_list =
     (if \<not> endswith ''}'' int_list
      then (if contains ''"numbers": ['' int_list \<and> \<not> endswith '']}'' int_list
            then (let open_brackets = count_char (CHR ''['') int_list;
                      close_brackets = count_char (CHR '']'') int_list;
                      open_braces = count_char (CHR ''{'') int_list;
                      close_braces = count_char (CHR ''}'') int_list;
                      missing_brackets = open_brackets - close_brackets;
                      missing_braces = open_braces - close_braces
                  in int_list @ replicate missing_brackets (CHR '']'') @ replicate missing_braces (CHR ''}''))
            else int_list)
      else int_list)\<close>

text \<open>The block \<open>if isinstance(int_list, str)\<close>: from a string to the value that is summed.\<close>

definition int_list_from_string :: "(string \<Rightarrow> exn + pyval) \<Rightarrow> string \<Rightarrow> exn + pyval" where
  "int_list_from_string loads int_list =
     (if startswith ''{'' int_list
      then (let int_list' = complete_json int_list
            in case loads int_list' of
                 Inl e \<Rightarrow>
                   if exn_class e = ''JSONDecodeError''
                   then (case str_exn e of
                           Inl e' \<Rightarrow> Inl e'
                         | Inr m \<Rightarrow>
                             Inl (Exn ''ValueError''
                               (''Failed to parse JSON string '' @ quoted int_list' @ '': '' @ m)))
                   else Inl e
               | Inr data \<Rightarrow> dict_get data ''numbers'' (PList []))
      else if startswith ''['' int_list \<and> endswith '']'' int_list
      then Inr (parse_list_string int_list)
      else if CHR '','' \<in> set int_list
      then Inr (PList (map (\<lambda>item. PStr (strip_chars [CHR 0x27, CHR 0x22] (py_strip item)))
                  (split_on (CHR '','') int_list)))
      else Inl (Exn ''ValueError''
             (''String input must be in list format [x,y,z] or JSON format. Got: '' @ quoted int_list)))"

text \<open>
  The whole tool. \<open>exp_sum\<close> is the last step, \<open>sum(math.exp(int(i)) for i in int_list)\<close>,
  a floating-point computation that is taken as given; what it raises is raised again.
\<close>

definition int_list_to_exponential_sum ::
  "(string \<Rightarrow> exn + pyval) \<Rightarrow> (pyval \<Rightarrow> exn + pyval) \<Rightarrow> pyval \<Rightarrow> exn + pyval" where
  "int_list_to_exponential_sum loads exp_sum int_list =
     (case int_list of
        PStr s \<Rightarrow> (case int_list_from_string loads s of Inl e \<Rightarrow> Inl e | Inr v \<Rightarrow> exp_sum v)
      | _ \<Rightarrow> exp_sum int_list)"

section \<open>The tools \<open>calculate\<close> and \<open>verify\<close>\<close>

text \<open>
  A call into code that is not this program's (the built-ins \<open>eval\<close>, \<open>str\<close>, \<open>float\<close>,
  \<open>print\<close>, the formatting of a value in an f-string) returns a value, raises an exception,
  or never returns, which is \<open>None\<close>. \<open>and_then\<close> is the sequence of two statements: the
  second runs when the first has returned.
\<close>

definition and_then :: "(exn + 'a) option \<Rightarrow> ('a \<Rightarrow> (exn + 'b) option) \<Rightarrow> (exn + 'b) option" where
  "and_then x f = (case x of None \<Rightarrow> None | Some (Inl e) \<Rightarrow> Some (Inl e) | Some (Inr v) \<Rightarrow> f v)"

text \<open>\<open>try: body except Exception as e: handler\<close>.\<close>

definition except_Exception ::
  "(exn + 'a) option \<Rightarrow> (exn \<Rightarrow> (exn + 'a) option) \<Rightarrow> (exn + 'a) option" where
  "except_Exception body handler =
     (case body of
        Some (Inl e) \<Rightarrow> if is_Exception e then handler e else Some (Inl e)
      | outcome \<Rightarrow> outcome)"

text \<open>
  What the two tools hand to \<open>print\<close>: a line of text, or one of the two lines of
  \<open>verify\<close> that begin with a check mark and a cross (code points above 255):
  \<open>Correct_line x y\<close> is \<open>f"\<dots> Correct! {x} = {y}"\<close> and \<open>Incorrect_line x a y\<close> is
  \<open>f"\<dots> Incorrect! {x} should be {a}, got {y}"\<close>, with the float \<open>a\<close> as its bit pattern.
\<close>

datatype printed =
    Line string
  | Correct_line string string
  | Incorrect_line string "64 word" string

text \<open>
  The handler of both tools: \<open>error_msg = f"Error: {str(e)}"\<close>, \<open>print(error_msg)\<close>,
  \<open>return error_msg\<close>. \<open>pr\<close> is the built-in \<open>print\<close>.
\<close>

definition error_msg :: "(printed \<Rightarrow> (exn + unit) option) \<Rightarrow> exn \<Rightarrow> (exn + string) option" where
  "error_msg pr e =
     (case str_exn e of
        Inl e' \<Rightarrow> Some (Inl e')
      | Inr m \<Rightarrow> and_then (pr (Line (''Error: '' @ m))) (\<lambda>u. Some (Inr (''Error: '' @ m))))"

text \<open>
  \<open>calculate\<close> and \<open>verify\<close> (the last definitions of the class, which are the ones bound).
  \<open>ev\<close> is the built-in \<open>eval\<close>, \<open>fmt v\<close> the text an f-string puts for \<open>{v}\<close>,
  \<open>str_of\<close> the built-in \<open>str\<close>, \<open>to_float\<close> the built-in \<open>float\<close> and \<open>close a b\<close>
  the test \<open>abs(a - b) < 1e-10\<close> on two floats, all taken as given. The first two
  \<open>print\<close> calls of each tool stand before the \<open>try\<close>.
\<close>

definition calculate ::
  "(string \<Rightarrow> (exn + pyval) option) \<Rightarrow> (pyval \<Rightarrow> (exn + string) option)
     \<Rightarrow> (pyval \<Rightarrow> (exn + string) option) \<Rightarrow> (printed \<Rightarrow> (exn + unit) option)
     \<Rightarrow> string \<Rightarrow> (exn + string) option" where
  "calculate ev fmt str_of pr expression =
     and_then (pr (Line (CHR 0x0A # ''=== Calculate ===''))) (\<lambda>u.
     and_then (pr (Line (''Expression: '' @ expression))) (\<lambda>u.
     except_Exception
       (and_then (ev expression) (\<lambda>result.
        and_then (fmt result) (\<lambda>shown.
        and_then (pr (Line (''Result: '' @ shown))) (\<lambda>u.
        str_of result))))
       (error_msg pr)))"

definition verify ::
  "(string \<Rightarrow> (exn + pyval) option) \<Rightarrow> (pyval \<Rightarrow> (exn + string) option)
     \<Rightarrow> (pyval \<Rightarrow> (exn + 64 word) option) \<Rightarrow> (64 word \<Rightarrow> 64 word \<Rightarrow> bool)
     \<Rightarrow> (printed \<Rightarrow> (exn + unit) option) \<Rightarrow> string \<Rightarrow> pyval \<Rightarrow> (exn + string) option" where
  "verify ev fmt to_float close pr expression expected =
     and_then (pr (Line (CHR 0x0A # ''=== Verify ===''))) (\<lambda>u.
     and_then (fmt expected) (\<lambda>shown.
     and_then (pr (Line (''Checking: '' @ expression @ '' = '' @ shown))) (\<lambda>u.
     except_Exception
       (and_then (ev expression) (\<lambda>v.
        and_then (to_float v) (\<lambda>actual.
        and_then (to_float expected) (\<lambda>expected'.
        (let is_correct = close actual expected'
         in and_then
              (and_then (fmt expected) (\<lambda>shown.
                 pr (if is_correct then Correct_line expression shown
                     else Incorrect_line expression actual shown)))
              (\<lambda>u. Some (Inr (if is_correct then ''True'' else ''False''))))))))
       (error_msg pr))))"

section \<open>The protocol parser: \<open>Decision.get_decision\<close>\<close>

definition function_call_line :: "string \<Rightarrow> string option" where
  "function_call_line response_text =
     List.find (startswith ''FUNCTION_CALL:'') (map py_strip (split_on (CHR 0x0A) response_text))"

text \<open>
  The result is the pair \<open>(func_name, params)\<close> of the source; the unpacking of
  \<open>split(":", 1)\<close> into two names raises when there is one part only.
\<close>

definition get_decision :: "string \<Rightarrow> exn + (string option \<times> string list option)" where
  "get_decision response_text =
     (case function_call_line response_text of
        Some line \<Rightarrow>
          if line \<noteq> []
          then (case split_once (CHR '':'') line of
                  [u, function_info] \<Rightarrow>
                    (case map py_strip (split_on (CHR ''|'') function_info) of
                       [] \<Rightarrow> Inl (Exn ''IndexError'' ''list index out of range'')
                     | func_name # ps \<Rightarrow> Inr (Some func_name, Some ps))
                | _ \<Rightarrow> Inl (Exn ''ValueError'' ''not enough values to unpack (expected 2, got 1)''))
          else if contains ''FINAL_ANSWER:'' response_text then Inr (None, None)
          else Inr (None, None)
      | None \<Rightarrow>
          if contains ''FINAL_ANSWER:'' response_text then Inr (None, None)
          else Inr (None, None))"

section \<open>The iteration loop of \<open>main\<close>\<close>


text \<open>
  The variables of the loop other than the counter \<open>iteration\<close>, which the loop function
  carries as its own argument: the globals \<open>last_response\<close> and \<open>iteration_response\<close>, the
  locals \<open>current_query\<close> and \<open>response_text\<close>, and the events so far.
\<close>

record state =
  last_response :: "pyval option"
  iteration_response :: "string list"
  current_query :: string
  response_text :: string
  events :: "event list"

text \<open>
  What the loop is given: the registry, \<open>json.loads\<close>, the text generation of
  \<open>Perception.generate_decision_response\<close> (asked in iteration \<open>i\<close> with the current query),
  the query, the outcome of \<open>json.dumps(facts, indent=2)\<close>, the user preference as text,
  the built-in \<open>str\<close>, and \<open>py_format v\<close>, the text an f-string puts for \<open>{v}\<close>. The
  last two are asked about the result of a tool; each returns, raises or never returns.
\<close>

record env =
  action_func_map :: "(string \<times> tool) list"
  json_loads :: "string \<Rightarrow> exn + pyval"
  generate_decision_response :: "nat \<Rightarrow> string \<Rightarrow> exn + string"
  query :: string
  facts_json :: "exn + string"
  user_preference :: string
  py_str :: "pyval \<Rightarrow> (exn + string) option"
  py_format :: "pyval \<Rightarrow> (exn + string) option"

definition log :: "event list \<Rightarrow> state \<Rightarrow> state" where
  "log evs s = s\<lparr>events := events s @ evs\<rparr>"

definition opt_str :: "string option \<Rightarrow> pyval" where
  "opt_str x = (case x of None \<Rightarrow> PNone | Some s \<Rightarrow> PStr s)"

definition opt_list :: "string list option \<Rightarrow> pyval" where
  "opt_list x = (case x of None \<Rightarrow> PNone | Some ps \<Rightarrow> PList (map PStr ps))"

fun attribute :: "pyval \<Rightarrow> string \<Rightarrow> pyval option" where
  "attribute (PObject c attrs) a = map_of attrs a"
| "attribute v a = None"

text \<open>\<open>str(v)\<close> and \<open>{v}\<close> in an f-string: a \<open>str\<close> is its own text.\<close>

definition str_value :: "env \<Rightarrow> pyval \<Rightarrow> (exn + string) option" where
  "str_value env v = (case v of PStr s \<Rightarrow> Some (Inr s) | _ \<Rightarrow> py_str env v)"

definition format_value :: "env \<Rightarrow> pyval \<Rightarrow> (exn + string) option" where
  "format_value env v = (case v of PStr s \<Rightarrow> Some (Inr s) | _ \<Rightarrow> py_format env v)"

text \<open>
  \<open>repr\<close> of a \<open>str\<close>, as the f-string of the trace entry applies it to every item of
  \<open>params\<close>: the quote is \<open>"\<close> when the text has a \<open>'\<close> and no \<open>"\<close>, and \<open>'\<close>
  otherwise; the quote and the backslash are escaped by a backslash, tab, line feed and
  carriage return are written \<open>\t\<close>, \<open>\n\<close>, \<open>\r\<close>, and every other code point that is
  not printable is written \<open>\xhh\<close>.
\<close>

definition hex_digit :: "nat \<Rightarrow> char" where
  "hex_digit d = ''0123456789abcdef'' ! d"

definition printable :: "char \<Rightarrow> bool" where
  "printable c =
     (let n = (of_char c :: nat)
      in \<not> (n < 0x20 \<or> n = 0x7F \<or> (0x80 \<le> n \<and> n \<le> 0xA0) \<or> n = 0xAD))"

definition repr_char :: "char \<Rightarrow> char \<Rightarrow> string" where
  "repr_char q c =
     (if c = q \<or> c = CHR 0x5C then [CHR 0x5C, c]
      else if c = CHR 0x09 then [CHR 0x5C, CHR ''t'']
      else if c = CHR 0x0A then [CHR 0x5C, CHR ''n'']
      else if c = CHR 0x0D then [CHR 0x5C, CHR ''r'']
      else if \<not> printable c
      then [CHR 0x5C, CHR ''x'', hex_digit (of_char c div 16), hex_digit (of_char c mod 16)]
      else [c])"

definition repr_str :: "string \<Rightarrow> string" where
  "repr_str s =
     (let q = (if CHR 0x27 \<in> set s \<and> CHR 0x22 \<notin> set s then CHR 0x22 else CHR 0x27)
      in q # concat (map (repr_char q) s) @ [q])"

text \<open>\<open>{params}\<close> for a list of \<open>str\<close>.\<close>

definition str_list :: "string list \<Rightarrow> string" where
  "str_list xs = ''['' @ join_with '', '' (map repr_str xs) @ '']''"

text \<open>
  The comprehension \<open>[item.text if hasattr(item, 'text') else str(item) for item in
  result.content]\<close>, item by item.
\<close>

fun content_items :: "(pyval \<Rightarrow> (exn + string) option) \<Rightarrow> pyval list \<Rightarrow> (exn + pyval list) option" where
  "content_items str_of [] = Some (Inr [])"
| "content_items str_of (item # items) =
     and_then (case attribute item ''text'' of
                 Some t \<Rightarrow> Some (Inr t)
               | None \<Rightarrow> and_then (str_of item) (\<lambda>s. Some (Inr (PStr s))))
       (\<lambda>x. and_then (content_items str_of items) (\<lambda>xs. Some (Inr (x # xs))))"

text \<open>\<open>iteration_result\<close>: the content of the result, or its \<open>str\<close>.\<close>

definition iteration_result_of :: "(pyval \<Rightarrow> (exn + string) option) \<Rightarrow> pyval \<Rightarrow> (exn + pyval) option" where
  "iteration_result_of str_of result =
     (case attribute result ''content'' of
        Some content \<Rightarrow>
          (case content of
             PList items \<Rightarrow> and_then (content_items str_of items) (\<lambda>xs. Some (Inr (PList xs)))
           | _ \<Rightarrow> and_then (str_of content) (\<lambda>s. Some (Inr (PStr s))))
      | None \<Rightarrow> and_then (str_of result) (\<lambda>s. Some (Inr (PStr s))))"

text \<open>\<open>', '.join(xs)\<close> raises on the first item that is no string.\<close>

fun join_items :: "nat \<Rightarrow> pyval list \<Rightarrow> exn + string list" where
  "join_items i [] = Inr []"
| "join_items i (PStr x # xs) =
     (case join_items (Suc i) xs of Inl e \<Rightarrow> Inl e | Inr ys \<Rightarrow> Inr (x # ys))"
| "join_items i (v # xs) =
     Inl (Exn ''TypeError'' (''sequence item '' @ str_nat i @ '': expected str instance, ''
            @ type_name v @ '' found''))"

definition result_str_of :: "(pyval \<Rightarrow> (exn + string) option) \<Rightarrow> pyval \<Rightarrow> (exn + string) option" where
  "result_str_of str_of iteration_result =
     (case iteration_result of
        PList items \<Rightarrow>
          (case join_items 0 items of
             Inl e \<Rightarrow> Some (Inl e)
           | Inr xs \<Rightarrow> Some (Inr (''['' @ join_with '', '' xs @ '']'')))
      | _ \<Rightarrow> str_of iteration_result)"

text \<open>
  How one pass through the loop body ends: at its end (\<open>Continue\<close>), at a \<open>break\<close>, with an
  exception that leaves the loop, or never (\<open>Hang\<close>), when a call in it never returns.
\<close>

datatype cycle_result = Continue state | Break state | Raise exn state | Hang

text \<open>
  Both \<open>except Exception\<close> handlers of the loop body have the same text. \<open>str(e)\<close> is
  evaluated first; what it raises leaves the handler. From the outer handler that exception
  leaves the loop.
\<close>

definition error_break :: "nat \<Rightarrow> exn \<Rightarrow> string \<Rightarrow> state \<Rightarrow> state" where
  "error_break iteration e m s =
     (log [Info ''DEBUG: Error details: {}'' [PStr m],
           Info ''DEBUG: Error type: {}'' [PStr (exn_class e)]] s)
     \<lparr>iteration_response := iteration_response s
         @ [''Error in iteration '' @ str_nat (iteration + 1) @ '': '' @ m]\<rparr>"

definition on_error :: "nat \<Rightarrow> exn \<Rightarrow> state \<Rightarrow> cycle_result" where
  "on_error iteration e s =
     (if is_Exception e
      then (case str_exn e of
              Inl e' \<Rightarrow> Raise e' s
            | Inr m \<Rightarrow> Break (error_break iteration e m s))
      else Raise e s)"

text \<open>
  The handler of the inner \<open>try\<close>. It stands inside the outer \<open>try\<close>, so what its
  \<open>str(e)\<close> raises is handled by the outer handler.
\<close>

definition on_inner_error :: "nat \<Rightarrow> exn \<Rightarrow> state \<Rightarrow> cycle_result" where
  "on_inner_error iteration e s =
     (if is_Exception e
      then (case str_exn e of
              Inl e' \<Rightarrow> on_error iteration e' s
            | Inr m \<Rightarrow> Break (error_break iteration e m s))
      else Raise e s)"

text \<open>
  The statements of the inner \<open>try\<close> after \<open>act\<close> has returned \<open>result\<close>: the two
  f-strings that format the result, \<open>iteration_result\<close>, \<open>result_str\<close> and the trace entry.
  They stand inside the \<open>try\<close>: an exception raised while the result is formatted is handled
  like one raised by the tool.
\<close>

definition record_result :: "env \<Rightarrow> nat \<Rightarrow> string \<Rightarrow> string list option \<Rightarrow> pyval \<Rightarrow> state \<Rightarrow> cycle_result" where
  "record_result env iteration f ps result s =
     (case format_value env result of
        None \<Rightarrow> Hang
      | Some (Inl e) \<Rightarrow> on_inner_error iteration e s
      | Some (Inr raw) \<Rightarrow>
          (let s1 = log [Info ''DEBUG: Raw result: {}'' [result],
                         Info (if attribute result ''content'' = None
                               then ''DEBUG: Result has no content attribute''
                               else ''DEBUG: Result has content attribute'') []] s
           in case iteration_result_of (str_value env) result of
                None \<Rightarrow> Hang
              | Some (Inl e) \<Rightarrow> on_inner_error iteration e s1
              | Some (Inr iteration_result) \<Rightarrow>
                  (case format_value env iteration_result of
                     None \<Rightarrow> Hang
                   | Some (Inl e) \<Rightarrow> on_inner_error iteration e s1
                   | Some (Inr final) \<Rightarrow>
                       (let s2 = log [Info ''DEBUG: Final iteration result: {}'' [iteration_result]] s1
                        in case result_str_of (str_value env) iteration_result of
                             None \<Rightarrow> Hang
                           | Some (Inl e) \<Rightarrow> on_inner_error iteration e s2
                           | Some (Inr result_str) \<Rightarrow>
                               Continue (s2\<lparr>iteration_response := iteration_response s2
                                   @ [''In the '' @ str_nat (iteration + 1) @ '' iteration you called '' @ f
                                      @ '' with parameters ''
                                      @ (case ps of None \<Rightarrow> ''None'' | Some xs \<Rightarrow> str_list xs)
                                      @ '' and the function returned '' @ result_str @ ''.''],
                                 last_response := Some iteration_result\<rparr>)))))"

text \<open>
  The inner \<open>try\<close>: dispatch when \<open>func_name\<close> is true, the final-answer branch otherwise.
  The parser returns \<open>params = None\<close> only together with \<open>func_name = None\<close>
  (\<open>get_decision_params\<close> below), so the list handed to \<open>act\<close> is always present.
\<close>

definition dispatch :: "env \<Rightarrow> nat \<Rightarrow> string option \<Rightarrow> string list option \<Rightarrow> state \<Rightarrow> cycle_result" where
  "dispatch env iteration func_name ps s =
     (case func_name of
        Some f \<Rightarrow>
          if f \<noteq> []
          then (case act (action_func_map env) (json_loads env) f
                       (PosParams (case ps of None \<Rightarrow> [] | Some xs \<Rightarrow> map PStr xs)) of
                  (evs, None) \<Rightarrow> Hang
                | (evs, Some (Inl e)) \<Rightarrow> on_inner_error iteration e (log evs s)
                | (evs, Some (Inr result)) \<Rightarrow> record_result env iteration f ps result (log evs s))
          else Break ((log [Info ''FINAL_ANSWER received, ending iterations.'' []] s)
                      \<lparr>iteration_response := iteration_response s
                          @ [''FINAL_ANSWER received: '' @ response_text s]\<rparr>)
      | None \<Rightarrow>
          Break ((log [Info ''FINAL_ANSWER received, ending iterations.'' []] s)
                 \<lparr>iteration_response := iteration_response s
                     @ [''FINAL_ANSWER received: '' @ response_text s]\<rparr>))"

text \<open>
  One pass through the body of the \<open>while\<close> loop, up to but without \<open>iteration += 1\<close>.
  Building the first query is outside every \<open>try\<close> of the loop body.
\<close>

definition build_query :: "env \<Rightarrow> state \<Rightarrow> exn + string" where
  "build_query env s =
     (case last_response s of
        None \<Rightarrow>
          (case facts_json env of
             Inl e \<Rightarrow> Inl e
           | Inr dumped \<Rightarrow>
               Inr (query env @ [CHR 0x0A, CHR 0x0A] @ ''Context:'' @ [CHR 0x0A]
                    @ ''Facts extracted: '' @ dumped @ [CHR 0x0A]
                    @ ''User preferences: '' @ user_preference env))
      | Some r \<Rightarrow>
          Inr (current_query s @ [CHR 0x0A, CHR 0x0A] @ join_with '' '' (iteration_response s)
               @ ''  What should I do next?''))"

definition cycle :: "env \<Rightarrow> nat \<Rightarrow> state \<Rightarrow> cycle_result" where
  "cycle env iteration s0 =
     (let s = log [Info (CHR 0x0A # ''--- Iteration {} ---'') [PInt (int (iteration + 1))]] s0
      in case build_query env s of
           Inl e \<Rightarrow> Raise e s
         | Inr q \<Rightarrow>
             (let s1 = log [Info ''Preparing to generate LLM response...'' []] (s\<lparr>current_query := q\<rparr>)
              in case generate_decision_response env iteration q of
                   Inl e \<Rightarrow> on_error iteration e s1
                 | Inr text \<Rightarrow>
                     (let s2 = log [Info ''LLM Response: {}'' [PStr text],
                                    Info ''Sending LLM response to the decision module...'' []]
                                 (s1\<lparr>response_text := text\<rparr>)
                      in case get_decision text of
                           Inl e \<Rightarrow> on_error iteration e s2
                         | Inr (func_name, ps) \<Rightarrow>
                             dispatch env iteration func_name ps
                               (log [Info ''DEBUG: Function name: {}'' [opt_str func_name],
                                     Info ''DEBUG: Raw parameters: {}'' [opt_list ps],
                                     Info ''Decision is made, time to take ACTION - {}'' [opt_str func_name]]
                                  s2))))"



text \<open>The state after \<open>reset_state()\<close>, with which \<open>main\<close> enters the loop.\<close>

definition initial_state :: state where
  "initial_state = \<lparr>last_response = None, iteration_response = [], current_query = [],
     response_text = [], events = []\<rparr>"

section \<open>The shape of a bracketed list token\<close>

text \<open>
  The tokens the claim about \<open>"[a, b, c]"\<close> speaks of. An element is written as its text,
  optionally wrapped in quote characters and then in white space. The text is not empty, has
  no comma, and neither begins nor ends with white space, a quote or a square bracket.
\<close>

record item =
  pad_l :: string
  quote_l :: string
  body :: string
  quote_r :: string
  pad_r :: string

definition render_item :: "item \<Rightarrow> string" where
  "render_item i = pad_l i @ quote_l i @ body i @ quote_r i @ pad_r i"

definition is_quote :: "char \<Rightarrow> bool" where
  "is_quote c = (c \<in> set [CHR 0x27, CHR 0x22])"

definition is_bracket :: "char \<Rightarrow> bool" where
  "is_bracket c = (c \<in> set ''[]'')"

definition plain :: "string \<Rightarrow> bool" where
  "plain x = (x \<noteq> [] \<and> CHR '','' \<notin> set x
      \<and> \<not> is_space (hd x) \<and> \<not> is_quote (hd x) \<and> \<not> is_bracket (hd x)
      \<and> \<not> is_space (last x) \<and> \<not> is_quote (last x) \<and> \<not> is_bracket (last x))"

definition well_formed_item :: "item \<Rightarrow> bool" where
  "well_formed_item i =
     ((\<forall>c \<in> set (pad_l i @ pad_r i). is_space c)
      \<and> (\<forall>c \<in> set (quote_l i @ quote_r i). is_quote c)
      \<and> plain (body i))"

section \<open>The closers a truncated text is missing\<close>

text \<open>
  The unmatched square brackets of a text, then its unmatched braces, each as its closing
  character: what has to follow the text for the counts to agree.
\<close>

definition closers :: "string \<Rightarrow> string" where
  "closers s = replicate (count_char (CHR ''['') s - count_char (CHR '']'') s) (CHR '']'')
             @ replicate (count_char (CHR ''{'') s - count_char (CHR ''}'') s) (CHR ''}'')"

section \<open>The entries of the trace\<close>



section \<open>Facts about sequencing\<close>

lemma and_then_simps [simp]:
  "and_then None f = None"
  "and_then (Some (Inl e)) f = Some (Inl e)"
  "and_then (Some (Inr v)) f = f v"
  by (simp_all add: and_then_def)

lemma except_Exception_simps [simp]:
  "except_Exception None h = None"
  "except_Exception (Some (Inr v)) h = Some (Inr v)"
  "except_Exception (Some (Inl e)) h = (if is_Exception e then h e else Some (Inl e))"
  by (simp_all add: except_Exception_def)

section \<open>Unknown tools\<close>

lemma act_body_unknown:
  "map_of func_map func_name = None \<Longrightarrow>
   act_body func_map loads func_name ps =
     ([Info ''DEBUG: Available tools: {}'' [PList (map (\<lambda>kv. PStr (fst kv)) func_map)]],
      Some (Inl (Exn ''ValueError'' (''Unknown tool: '' @ func_name))))"
  by (simp add: act_body_def)

text \<open>
  Claim C7. For every tool name that is not a key of the registry, \<open>act\<close> fails with the
  unknown-tool error (in the source a \<open>ValueError\<close> with the text \<open>Unknown tool: <name>\<close>)
  and no callable is executed: the run records no \<open>Call\<close>.
\<close>

theorem act_unknown_tool:
  assumes "func_name \<notin> fst ` set func_map"
  shows "snd (act func_map loads func_name ps) = Some (Inl (Exn ''ValueError'' (''Unknown tool: '' @ func_name)))
       \<and> filter is_Call (fst (act func_map loads func_name ps)) = []"
proof -
  from assms have "map_of func_map func_name = None"
    by (simp add: map_of_eq_None_iff)
  then show ?thesis
    by (simp add: act_def act_body_unknown act_handler_def)
qed

theorem act_unknown_tool_witness:
  "''draw_rectangle'' \<notin> fst ` set (Action_func_map (\<lambda>n kw. Some (Inr PNone)))
   \<and> snd (act (Action_func_map (\<lambda>n kw. Some (Inr PNone))) (\<lambda>s. Inr PNone) ''draw_rectangle''
          (PosParams [PStr ''1'', PStr ''2''])) = Some (Inl (Exn ''ValueError'' ''Unknown tool: draw_rectangle''))
   \<and> filter is_Call (fst (act (Action_func_map (\<lambda>n kw. Some (Inr PNone))) (\<lambda>s. Inr PNone) ''draw_rectangle''
          (PosParams [PStr ''1'', PStr ''2'']))) = []"
proof -
  have h: "''draw_rectangle'' \<notin> fst ` set (Action_func_map (\<lambda>n kw. Some (Inr PNone)))"
    by (simp add: Action_func_map_def signatures_def)
  show ?thesis
    using h act_unknown_tool [OF h, of "\<lambda>s. Inr PNone" "PosParams [PStr ''1'', PStr ''2'']"]
    by simp
qed

section \<open>Facts about \<open>act\<close> shared by the claims\<close>

lemma str_nat_1 [simp]: "str_nat (Suc 0) = ''1''"
  by (simp add: str_nat.simps digit_char_def)

lemma act_normalize_fails:
  assumes "map_of fm f = Some t" and "normalize loads f t ps = (evs, Inl e)"
  shows "act fm loads f ps = (evs @ fst (act_handler f e), Some (Inl (snd (act_handler f e))))"
  using assms by (simp add: act_def act_body_def)

lemma act_invoke_fails:
  assumes "map_of fm f = Some t" and "normalize loads f t ps = (evs, Inr args)"
    and "invoke t args = Some (Inl e)"
  shows "act fm loads f ps =
    (evs @ [Info ''DEBUG: Final arguments: {}'' [PDict args], Info ''DEBUG: Calling tool {}'' [PStr f],
            Call f args]
       @ log_if_Exception ''Error while calling tool {}'' [PStr f] e
       @ fst (act_handler f e), Some (Inl (snd (act_handler f e))))"
  using assms by (simp add: act_def act_body_def)


lemma act_invoke_hangs:
  assumes "map_of fm f = Some t" and "normalize loads f t ps = (evs, Inr args)"
    and "invoke t args = None"
  shows "snd (act fm loads f ps) = None"
  using assms by (simp add: act_def act_body_def)

lemma act_handler_Exn [simp]:
  "act_handler f (Exn c m) = ([LogException ''Error in act method for tool {}: {}'' [PStr f, PStr m] (Exn c m)], Exn c m)"
  by (simp add: act_handler_def)

lemma filter_is_Call_act_handler [simp]: "filter is_Call (fst (act_handler f e)) = []"
  by (cases e) (simp_all add: act_handler_def split: sum.splits)

lemma filter_is_Call_log [simp]: "filter is_Call (log_if_Exception m vs e) = []"
  by (simp add: log_if_Exception_def)

lemma map_of_Action_func_map:
  "map_of signatures n = Some (ps, a) \<Longrightarrow>
   map_of (Action_func_map impl) n
     = Some \<lparr>parameters = ps, is_coroutine_function = a, call = impl n\<rparr>"
proof -
  have "map_of (map (\<lambda>(n, ps, a). (n, \<lparr>parameters = ps, is_coroutine_function = a, call = impl n\<rparr>)) sigs) n
      = map_option (\<lambda>(ps, a). \<lparr>parameters = ps, is_coroutine_function = a, call = impl n\<rparr>)
          (map_of sigs n)" for sigs
    by (induction sigs) auto
  then show "map_of signatures n = Some (ps, a) \<Longrightarrow> ?thesis"
    by (simp add: Action_func_map_def)
qed

section \<open>Several tokens for a tool with one parameter\<close>

text \<open>
  Claim C3, as the code has it. For a registered tool with exactly one parameter and more
  than one token: under the name \<open>int_list_to_exponential_sum\<close> the tokens are bound, in
  their order, as one list to that parameter; under every other name normalization raises
  the count error \<open>Expected 1 parameters for <name>, got <n>\<close>, which \<open>act\<close> hands on
  without executing a callable.
\<close>

theorem single_parameter_flattening:
  assumes "map_of fm f = Some t"
    and "filter (\<lambda>n. n \<noteq> ''self'') (parameters t) = [p]"
    and "length xs > 1"
  shows "(f = ''int_list_to_exponential_sum'' \<longrightarrow>
            snd (normalize loads f t (PosParams xs)) = Inr [(p, PList xs)])
       \<and> (f \<noteq> ''int_list_to_exponential_sum'' \<longrightarrow>
            snd (normalize loads f t (PosParams xs))
              = Inl (Exn ''ValueError'' (''Expected 1 parameters for '' @ f @ '', got '' @ str_nat (length xs)))
          \<and> snd (act fm loads f (PosParams xs))
              = Some (Inl (Exn ''ValueError'' (''Expected 1 parameters for '' @ f @ '', got '' @ str_nat (length xs))))
          \<and> filter is_Call (fst (act fm loads f (PosParams xs))) = [])"
proof (intro conjI impI)
  assume "f = ''int_list_to_exponential_sum''"
  with assms show "snd (normalize loads f t (PosParams xs)) = Inr [(p, PList xs)]"
    by (simp add: normalize_def Let_def)
next
  assume ne: "f \<noteq> ''int_list_to_exponential_sum''"
  with assms have n: "normalize loads f t (PosParams xs)
     = ([], Inl (Exn ''ValueError'' (''Expected 1 parameters for '' @ f @ '', got '' @ str_nat (length xs))))"
    by (simp add: normalize_def Let_def)
  then show "snd (normalize loads f t (PosParams xs))
     = Inl (Exn ''ValueError'' (''Expected 1 parameters for '' @ f @ '', got '' @ str_nat (length xs)))"
    by simp
  from act_normalize_fails [OF assms(1) n]
  show "snd (act fm loads f (PosParams xs))
     = Some (Inl (Exn ''ValueError'' (''Expected 1 parameters for '' @ f @ '', got '' @ str_nat (length xs))))"
    and "filter is_Call (fst (act fm loads f (PosParams xs))) = []"
    by simp_all
qed

theorem single_parameter_flattening_witness:
  "snd (normalize (\<lambda>s. Inr PNone) ''int_list_to_exponential_sum''
         \<lparr>parameters = [''int_list''], is_coroutine_function = False, call = (\<lambda>kw. Some (Inr PNone))\<rparr>
         (PosParams [PStr ''73'', PStr ''78'', PStr ''68'']))
     = Inr [(''int_list'', PList [PStr ''73'', PStr ''78'', PStr ''68''])]
   \<and> snd (normalize (\<lambda>s. Inr PNone) ''cbrt''
         \<lparr>parameters = [''a''], is_coroutine_function = False, call = (\<lambda>kw. Some (Inr PNone))\<rparr>
         (PosParams [PStr ''73'', PStr ''78'', PStr ''68'']))
     = Inl (Exn ''ValueError'' ''Expected 1 parameters for cbrt, got 3'')"
proof -
  have m1: "map_of (Action_func_map (\<lambda>n kw. Some (Inr PNone))) ''int_list_to_exponential_sum''
      = Some \<lparr>parameters = [''int_list''], is_coroutine_function = False, call = (\<lambda>kw. Some (Inr PNone))\<rparr>"
    by (rule map_of_Action_func_map) (simp add: signatures_def)
  have m2: "map_of (Action_func_map (\<lambda>n kw. Some (Inr PNone))) ''cbrt''
      = Some \<lparr>parameters = [''a''], is_coroutine_function = False, call = (\<lambda>kw. Some (Inr PNone))\<rparr>"
    by (rule map_of_Action_func_map) (simp add: signatures_def)
  have n3: "str_nat (Suc (Suc (Suc 0))) = ''3''"
    by (simp add: str_nat.simps digit_char_def)
  show ?thesis
    using single_parameter_flattening [OF m1, of "''int_list''" "[PStr ''73'', PStr ''78'', PStr ''68'']" "\<lambda>s. Inr PNone"]
      single_parameter_flattening [OF m2, of "''a''" "[PStr ''73'', PStr ''78'', PStr ''68'']" "\<lambda>s. Inr PNone"]
    by (simp add: n3)
qed

theorem flattening_any_tool_counterexample:
  "snd (act (Action_func_map (\<lambda>n kw. Some (Inr PNone))) (\<lambda>s. Inr PNone) ''sqrt'' (PosParams [PStr ''4'', PStr ''9'']))
     = Some (Inl (Exn ''ValueError'' ''Expected 1 parameters for sqrt, got 2''))
   \<and> filter is_Call (fst (act (Action_func_map (\<lambda>n kw. Some (Inr PNone))) (\<lambda>s. Inr PNone) ''sqrt''
        (PosParams [PStr ''4'', PStr ''9'']))) = []"
  by (simp add: act_def act_body_def normalize_def Action_func_map_def signatures_def Let_def
       str_nat.simps digit_char_def act_handler_def)

section \<open>Named parameters\<close>

lemma dict_set_append:
  "k \<notin> fst ` set d \<Longrightarrow> dict_set k v d = d @ [(k, v)]"
  by (induction d) auto

lemma bind_named_all_known:
  assumes "fst ` set d \<subseteq> set sp" and "distinct (map fst d)" and "fst ` set acc \<inter> fst ` set d = {}"
  shows "bind_named f sp d acc = Inr (acc @ d)"
  using assms
proof (induction d arbitrary: acc)
  case Nil
  then show ?case by simp
next
  case (Cons kv d)
  obtain k v where kv: "kv = (k, v)" by (cases kv)
  from Cons.prems kv have k: "k \<in> set sp" "k \<notin> fst ` set acc" "k \<notin> fst ` set d"
    by auto
  have "bind_named f sp d (acc @ [(k, v)]) = Inr ((acc @ [(k, v)]) @ d)"
  proof (rule Cons.IH)
    show "fst ` set d \<subseteq> set sp" using Cons.prems by auto
    show "distinct (map fst d)" using Cons.prems by auto
    show "fst ` set (acc @ [(k, v)]) \<inter> fst ` set d = {}"
      using Cons.prems k kv by auto
  qed
  with k kv show ?case by (simp add: dict_set_append)
qed

lemma bind_named_unknown:
  assumes "d = known @ (k, v) # rest" and "fst ` set known \<subseteq> set sp" and "k \<notin> set sp"
  shows "bind_named f sp d acc = Inl (Exn ''ValueError'' (''Unknown parameter '' @ k @ '' for '' @ f))"
  using assms
proof (induction known arbitrary: d acc)
  case Nil
  then show ?case by simp
next
  case (Cons kv known)
  obtain k' v' where kv: "kv = (k', v')" by (cases kv)
  with Cons.prems have "k' \<in> set sp" by auto
  moreover have "bind_named f sp (known @ (k, v) # rest) (dict_set k' v' acc)
      = Inl (Exn ''ValueError'' (''Unknown parameter '' @ k @ '' for '' @ f))"
    using Cons.prems by (intro Cons.IH) auto
  ultimately show ?case using Cons.prems kv by simp
qed

text \<open>
  Claim C4, as the code has it. For a named mapping given to a registered tool: the first
  key, in the order of the mapping, that is no parameter name of the tool makes \<open>act\<close> fail with
  the error \<open>Unknown parameter <key> for <name>\<close>, and no callable is executed; when every
  key is a parameter name, every value, string or not, is bound exactly as it was given.
\<close>

theorem named_mapping_binding:
  assumes "map_of fm f = Some t"
  shows "(d = known @ (k, v) # rest \<and> fst ` set known \<subseteq> set (parameters t) \<and> k \<notin> set (parameters t)
           \<longrightarrow> snd (act fm loads f (NamedParams d))
                 = Some (Inl (Exn ''ValueError'' (''Unknown parameter '' @ k @ '' for '' @ f)))
               \<and> filter is_Call (fst (act fm loads f (NamedParams d))) = [])
       \<and> (fst ` set d \<subseteq> set (parameters t) \<and> distinct (map fst d)
           \<longrightarrow> snd (normalize loads f t (NamedParams d)) = Inr d)"
proof (intro conjI impI)
  assume a: "d = known @ (k, v) # rest \<and> fst ` set known \<subseteq> set (parameters t) \<and> k \<notin> set (parameters t)"
  then have n: "normalize loads f t (NamedParams d)
      = ([], Inl (Exn ''ValueError'' (''Unknown parameter '' @ k @ '' for '' @ f)))"
    by (simp add: normalize_def bind_named_unknown [where known = known and rest = rest and v = v])
  from act_normalize_fails [OF assms n]
  show "snd (act fm loads f (NamedParams d))
      = Some (Inl (Exn ''ValueError'' (''Unknown parameter '' @ k @ '' for '' @ f)))"
    and "filter is_Call (fst (act fm loads f (NamedParams d))) = []"
    by simp_all
next
  assume "fst ` set d \<subseteq> set (parameters t) \<and> distinct (map fst d)"
  then show "snd (normalize loads f t (NamedParams d)) = Inr d"
    using bind_named_all_known [of d "parameters t" "[]" f] by (simp add: normalize_def)
qed

theorem named_mapping_binding_witness:
  "snd (act (Action_func_map (\<lambda>n kw. Some (Inr PNone))) (\<lambda>s. Inr PNone) ''add''
         (NamedParams [(''a'', PStr ''1''), (''c'', PStr ''2''), (''b'', PStr ''3'')]))
     = Some (Inl (Exn ''ValueError'' ''Unknown parameter c for add''))
   \<and> snd (normalize (\<lambda>s. Inr PNone) ''add''
         \<lparr>parameters = [''a'', ''b''], is_coroutine_function = False, call = (\<lambda>kw. Some (Inr PNone))\<rparr>
         (NamedParams [(''b'', PStr ''[1, 2]''), (''a'', PInt 3)]))
     = Inr [(''b'', PStr ''[1, 2]''), (''a'', PInt 3)]"
proof -
  let ?t = "\<lparr>parameters = [''a'', ''b''], is_coroutine_function = False, call = (\<lambda>kw. Some (Inr PNone))\<rparr>"
  have m: "map_of (Action_func_map (\<lambda>n kw. Some (Inr PNone))) ''add'' = Some ?t"
    by (rule map_of_Action_func_map) (simp add: signatures_def)
  show ?thesis
    using named_mapping_binding [OF m, of "[(''a'', PStr ''1''), (''c'', PStr ''2''), (''b'', PStr ''3'')]"
        "[(''a'', PStr ''1'')]" "''c''" "PStr ''2''" "[(''b'', PStr ''3'')]" "\<lambda>s. Inr PNone"]
      named_mapping_binding [OF m, of "[(''b'', PStr ''[1, 2]''), (''a'', PInt 3)]"
        "[]" "''zz''" "PNone" "[]" "\<lambda>s. Inr PNone"]
    by simp
qed

theorem named_mapping_no_repair_counterexample:
  "snd (normalize (\<lambda>s. Inr PNone) ''add_list''
         \<lparr>parameters = [''numbers''], is_coroutine_function = False, call = (\<lambda>kw. Some (Inr PNone))\<rparr>
         (NamedParams [(''numbers'', PStr ''[1, 2]'')]))
     = Inr [(''numbers'', PStr ''[1, 2]'')]
   \<and> parse_list_string ''[1, 2]'' = PList [PStr ''1'', PStr ''2'']
   \<and> snd (normalize (\<lambda>s. Inr PNone) ''add_list''
         \<lparr>parameters = [''numbers''], is_coroutine_function = False, call = (\<lambda>kw. Some (Inr PNone))\<rparr>
         (PosParams [PStr ''[1, 2]'']))
     = Inr [(''numbers'', PList [PStr ''1'', PStr ''2''])]"
  by (simp add: normalize_def parse_list_string_def strip_chars_def strip_with_def py_strip_def
      is_space_def looks_like_list_def startswith_def endswith_def Let_def)

section \<open>Faults of a tool\<close>

lemma invoke_raises:
  assumes "call t args = Some (Inl e)
         \<or> (\<not> is_coroutine_function t \<and> call t args = Some (Inr (PCoroutine (Some (Inl e)))))"
  shows "invoke t args = Some (Inl e)"
  using assms by (auto simp add: invoke_def)

lemma invoke_hangs:
  assumes "call t args = None
         \<or> (\<not> is_coroutine_function t \<and> call t args = Some (Inr (PCoroutine None)))"
  shows "invoke t args = None"
  using assms by (auto simp add: invoke_def)

text \<open>
  Claim C5, as the code has it. Let the \<open>await\<close> with which \<open>act\<close> executes a registered
  tool end with an exception \<open>e\<close> (the \<open>await\<close> of the tool's run, or the \<open>await\<close> of a
  coroutine that a synchronous tool handed back). \<open>act\<close> has then logged the arguments and
  the tool name and recorded the call. If \<open>e\<close> does not derive from \<open>Exception\<close>, it passes
  both handlers without a record and leaves \<open>act\<close>. If it derives from \<open>Exception\<close>, the
  inner handler logs it with the tool name; when \<open>str(e)\<close> returns, the outer handler logs
  it with the tool name and that text and \<open>e\<close> itself leaves \<open>act\<close>, not wrapped in an error
  of another type; when \<open>str(e)\<close> raises, the outer handler logs nothing and the exception
  raised by \<open>str(e)\<close> leaves \<open>act\<close>. In no case does \<open>act\<close> return a value. When the
  \<open>await\<close> never completes, \<open>act\<close> never returns.
\<close>

theorem tool_fault_reraised:
  assumes "map_of fm f = Some t"
    and "normalize loads f t ps = (evs, Inr args)"
  shows "(call t args = Some (Inl e)
            \<or> (\<not> is_coroutine_function t \<and> call t args = Some (Inr (PCoroutine (Some (Inl e)))))
          \<longrightarrow>
            (\<not> is_Exception e \<longrightarrow>
               act fm loads f ps =
                 (evs @ [Info ''DEBUG: Final arguments: {}'' [PDict args],
                         Info ''DEBUG: Calling tool {}'' [PStr f],
                         Call f args],
                  Some (Inl e)))
          \<and> (\<forall>m. is_Exception e \<and> str_exn e = Inr m \<longrightarrow>
               act fm loads f ps =
                 (evs @ [Info ''DEBUG: Final arguments: {}'' [PDict args],
                         Info ''DEBUG: Calling tool {}'' [PStr f],
                         Call f args,
                         LogException ''Error while calling tool {}'' [PStr f] e,
                         LogException ''Error in act method for tool {}: {}'' [PStr f, PStr m] e],
                  Some (Inl e)))
          \<and> (\<forall>e'. is_Exception e \<and> str_exn e = Inl e' \<longrightarrow>
               act fm loads f ps =
                 (evs @ [Info ''DEBUG: Final arguments: {}'' [PDict args],
                         Info ''DEBUG: Calling tool {}'' [PStr f],
                         Call f args,
                         LogException ''Error while calling tool {}'' [PStr f] e],
                  Some (Inl e'))))
       \<and> (call t args = None
            \<or> (\<not> is_coroutine_function t \<and> call t args = Some (Inr (PCoroutine None)))
          \<longrightarrow> snd (act fm loads f ps) = None)"
proof (intro conjI impI)
  assume "call t args = Some (Inl e)
            \<or> (\<not> is_coroutine_function t \<and> call t args = Some (Inr (PCoroutine (Some (Inl e)))))"
  then have i: "invoke t args = Some (Inl e)"
    by (rule invoke_raises)
  note a = act_invoke_fails [OF assms i]
  show "act fm loads f ps =
          (evs @ [Info ''DEBUG: Final arguments: {}'' [PDict args],
                  Info ''DEBUG: Calling tool {}'' [PStr f],
                  Call f args],
           Some (Inl e))" if "\<not> is_Exception e"
    using a that by (simp add: log_if_Exception_def act_handler_def)
  show "\<forall>m. is_Exception e \<and> str_exn e = Inr m \<longrightarrow>
          act fm loads f ps =
            (evs @ [Info ''DEBUG: Final arguments: {}'' [PDict args],
                    Info ''DEBUG: Calling tool {}'' [PStr f],
                    Call f args,
                    LogException ''Error while calling tool {}'' [PStr f] e,
                    LogException ''Error in act method for tool {}: {}'' [PStr f, PStr m] e],
             Some (Inl e))"
    using a by (simp add: log_if_Exception_def act_handler_def)
  show "\<forall>e'. is_Exception e \<and> str_exn e = Inl e' \<longrightarrow>
          act fm loads f ps =
            (evs @ [Info ''DEBUG: Final arguments: {}'' [PDict args],
                    Info ''DEBUG: Calling tool {}'' [PStr f],
                    Call f args,
                    LogException ''Error while calling tool {}'' [PStr f] e],
             Some (Inl e'))"
    using a by (simp add: log_if_Exception_def act_handler_def)
next
  assume "call t args = None
            \<or> (\<not> is_coroutine_function t \<and> call t args = Some (Inr (PCoroutine None)))"
  then have "invoke t args = None"
    by (rule invoke_hangs)
  from act_invoke_hangs [OF assms this] show "snd (act fm loads f ps) = None" .
qed

theorem tool_fault_not_wrapped_counterexample:
  "snd (act (Action_func_map (\<lambda>n kw. Some (Inl (Exn ''ZeroDivisionError'' ''float division by zero''))))
         (\<lambda>s. Inr PNone) ''divide'' (PosParams [PStr ''1'', PStr ''0'']))
     = Some (Inl (Exn ''ZeroDivisionError'' ''float division by zero''))
   \<and> exn_class (Exn ''ZeroDivisionError'' ''float division by zero'') \<noteq> ''ExecutionError''"
  by (simp add: act_def act_body_def normalize_def Action_func_map_def signatures_def Let_def
       invoke_def log_if_Exception_def act_handler_def looks_like_list_def startswith_def)

theorem tool_fault_reraised_witness:
  "act (Action_func_map (\<lambda>n kw. Some (Inl (Exn ''ZeroDivisionError'' ''float division by zero''))))
       (\<lambda>s. Inr PNone) ''divide'' (PosParams [PStr ''1'', PStr ''0''])
     = ([Info ''DEBUG: Final arguments: {}'' [PDict [(''a'', PStr ''1''), (''b'', PStr ''0'')]],
         Info ''DEBUG: Calling tool {}'' [PStr ''divide''],
         Call ''divide'' [(''a'', PStr ''1''), (''b'', PStr ''0'')],
         LogException ''Error while calling tool {}'' [PStr ''divide'']
           (Exn ''ZeroDivisionError'' ''float division by zero''),
         LogException ''Error in act method for tool {}: {}''
           [PStr ''divide'', PStr ''float division by zero'']
           (Exn ''ZeroDivisionError'' ''float division by zero'')],
        Some (Inl (Exn ''ZeroDivisionError'' ''float division by zero'')))
   \<and> act (Action_func_map (\<lambda>n kw. Some (Inl (BaseExn ''KeyboardInterrupt'' []))))
       (\<lambda>s. Inr PNone) ''divide'' (PosParams [PStr ''1'', PStr ''0''])
     = ([Info ''DEBUG: Final arguments: {}'' [PDict [(''a'', PStr ''1''), (''b'', PStr ''0'')]],
         Info ''DEBUG: Calling tool {}'' [PStr ''divide''],
         Call ''divide'' [(''a'', PStr ''1''), (''b'', PStr ''0'')]],
        Some (Inl (BaseExn ''KeyboardInterrupt'' [])))
   \<and> act (Action_func_map (\<lambda>n kw. Some (Inl (BadStr ''Odd'' (Exn ''RuntimeError'' ''no text'')))))
       (\<lambda>s. Inr PNone) ''divide'' (PosParams [PStr ''1'', PStr ''0''])
     = ([Info ''DEBUG: Final arguments: {}'' [PDict [(''a'', PStr ''1''), (''b'', PStr ''0'')]],
         Info ''DEBUG: Calling tool {}'' [PStr ''divide''],
         Call ''divide'' [(''a'', PStr ''1''), (''b'', PStr ''0'')],
         LogException ''Error while calling tool {}'' [PStr ''divide'']
           (BadStr ''Odd'' (Exn ''RuntimeError'' ''no text''))],
        Some (Inl (Exn ''RuntimeError'' ''no text'')))
   \<and> snd (act (Action_func_map (\<lambda>n kw. None))
       (\<lambda>s. Inr PNone) ''divide'' (PosParams [PStr ''1'', PStr ''0''])) = None"
proof -
  let ?ps = "PosParams [PStr ''1'', PStr ''0'']"
  let ?args = "[(''a'', PStr ''1''), (''b'', PStr ''0'')]"
  have m: "map_of (Action_func_map impl) ''divide''
      = Some \<lparr>parameters = [''a'', ''b''], is_coroutine_function = False, call = impl ''divide''\<rparr>" for impl
    by (rule map_of_Action_func_map) (simp add: signatures_def)
  have n: "normalize (\<lambda>s. Inr PNone) ''divide''
        \<lparr>parameters = [''a'', ''b''], is_coroutine_function = False, call = c\<rparr> ?ps
      = ([], Inr ?args)" for c
    by (simp add: normalize_def Let_def looks_like_list_def startswith_def)
  show ?thesis
    using tool_fault_reraised [OF m n,
        of "\<lambda>n kw. Some (Inl (Exn ''ZeroDivisionError'' ''float division by zero''))"
           "Exn ''ZeroDivisionError'' ''float division by zero''"]
      tool_fault_reraised [OF m n,
        of "\<lambda>n kw. Some (Inl (BaseExn ''KeyboardInterrupt'' []))" "BaseExn ''KeyboardInterrupt'' []"]
      tool_fault_reraised [OF m n,
        of "\<lambda>n kw. Some (Inl (BadStr ''Odd'' (Exn ''RuntimeError'' ''no text'')))"
           "BadStr ''Odd'' (Exn ''RuntimeError'' ''no text'')"]
      tool_fault_reraised [OF m n, of "\<lambda>n kw. None" "Exn [] []"]
    by simp
qed

section \<open>The result handed to the caller\<close>

text \<open>
  Claim C2 at \<open>send_email\<close>, the coroutine function of the registry. The tool is executed
  and its coroutine yields the dictionary with the text content, and \<open>act\<close> hands its caller
  \<open>None\<close>. A synchronous tool such as \<open>show_reasoning\<close> has its value handed on.
\<close>

theorem act_async_tool_returns_None:
  "snd (act (Action_func_map (\<lambda>n kw. if n = ''send_email''
              then Some (Inr (PDict [(''content'',
                     PList [PObject ''TextContent'' [(''type'', PStr ''text''),
                                                     (''text'', PStr ''Email sent successfully!'')]])]))
              else Some (Inr (PStr ''Reasoning shown''))))
         (\<lambda>s. Inr PNone) ''send_email'' (PosParams [PStr ''Final answer: 7.599e+33'']))
     = Some (Inr PNone)
   \<and> filter is_Call (fst (act (Action_func_map (\<lambda>n kw. if n = ''send_email''
              then Some (Inr (PDict [(''content'',
                     PList [PObject ''TextContent'' [(''type'', PStr ''text''),
                                                     (''text'', PStr ''Email sent successfully!'')]])]))
              else Some (Inr (PStr ''Reasoning shown''))))
         (\<lambda>s. Inr PNone) ''send_email'' (PosParams [PStr ''Final answer: 7.599e+33''])))
     = [Call ''send_email'' [(''text'', PStr ''Final answer: 7.599e+33'')]]
   \<and> snd (act (Action_func_map (\<lambda>n kw. if n = ''send_email''
              then Some (Inr (PDict [(''content'',
                     PList [PObject ''TextContent'' [(''type'', PStr ''text''),
                                                     (''text'', PStr ''Email sent successfully!'')]])]))
              else Some (Inr (PStr ''Reasoning shown''))))
         (\<lambda>s. Inr PNone) ''show_reasoning'' (PosParams [PStr ''1. Convert; 2. Sum'']))
     = Some (Inr (PStr ''Reasoning shown''))"
  by (simp add: act_def act_body_def normalize_def Action_func_map_def signatures_def Let_def
       invoke_def log_if_Exception_def looks_like_list_def startswith_def)

section \<open>Bracketed list tokens\<close>

lemma split_on_no_sep: "c \<notin> set x \<Longrightarrow> split_on c x = [x]"
  by (induction x) auto

lemma split_on_append_sep: "c \<notin> set x \<Longrightarrow> split_on c (x @ c # rest) = x # split_on c rest"
  by (induction x) auto

lemma join_with_Cons2: "join_with sep (x # y # ys) = x @ sep @ join_with sep (y # ys)"
  by (simp add: join_with_def)

lemma join_with_single: "join_with sep [x] = x"
  by (simp add: join_with_def)

lemma split_on_join:
  "xs \<noteq> [] \<Longrightarrow> \<forall>x \<in> set xs. c \<notin> set x \<Longrightarrow> split_on c (join_with [c] xs) = xs"
proof (induction xs rule: list_nonempty_induct)
  case (single x)
  then show ?case by (simp add: join_with_single split_on_no_sep)
next
  case (cons x xs)
  then obtain y ys where xs: "xs = y # ys" by (cases xs) auto
  from cons show ?case
    by (simp add: xs join_with_Cons2 split_on_append_sep)
qed

lemma strip_with_core:
  assumes "\<forall>c \<in> set l. P c" and "\<forall>c \<in> set r. P c"
    and "x \<noteq> []" and "\<not> P (hd x)" and "\<not> P (last x)"
  shows "strip_with P (l @ x @ r) = x"
proof -
  have 1: "dropWhile P (l @ x @ r) = x @ r"
  proof -
    have "dropWhile P (l @ (x @ r)) = dropWhile P (x @ r)"
      using assms(1) by (simp add: dropWhile_append2)
    moreover have "dropWhile P (x @ r) = x @ r"
      using assms(3,4) by (cases x) auto
    ultimately show ?thesis by simp
  qed
  have 2: "dropWhile P (rev r @ rev x) = rev x"
  proof -
    have "dropWhile P (rev r @ rev x) = dropWhile P (rev x)"
      by (rule dropWhile_append2) (use assms(2) in auto)
    moreover have "dropWhile P (rev x) = rev x"
      using assms(3,5) by (cases "rev x") (auto simp: last_rev [symmetric] hd_rev)
    ultimately show ?thesis by simp
  qed
  show ?thesis by (simp add: strip_with_def 1 2)
qed

lemma is_space_not_special:
  "is_space c \<Longrightarrow> \<not> is_quote c \<and> \<not> is_bracket c \<and> c \<noteq> CHR '',''"
  by (auto simp: is_space_def is_quote_def is_bracket_def)

lemma is_quote_not_special:
  "is_quote c \<Longrightarrow> \<not> is_bracket c \<and> c \<noteq> CHR '',''"
  by (auto simp: is_quote_def is_bracket_def)

lemma item_strip:
  assumes "well_formed_item i"
  shows "strip_chars [CHR 0x27, CHR 0x22] (py_strip (render_item i)) = body i"
proof -
  from assms have b: "body i \<noteq> []" "\<not> is_space (hd (body i))" "\<not> is_space (last (body i))"
      "\<not> is_quote (hd (body i))" "\<not> is_quote (last (body i))"
    and p: "\<forall>c \<in> set (pad_l i). is_space c" "\<forall>c \<in> set (pad_r i). is_space c"
    and q: "\<forall>c \<in> set (quote_l i). is_quote c" "\<forall>c \<in> set (quote_r i). is_quote c"
    by (auto simp: well_formed_item_def plain_def)
  let ?m = "quote_l i @ body i @ quote_r i"
  have ne: "?m \<noteq> []" using b by simp
  have h: "\<not> is_space (hd ?m)"
    using b q is_space_not_special by (cases "quote_l i") auto
  have l: "\<not> is_space (last ?m)"
    using b q is_space_not_special by (cases "quote_r i" rule: rev_cases) auto
  have "py_strip (render_item i) = ?m"
    using strip_with_core [OF p ne h l] by (simp add: py_strip_def render_item_def)
  moreover have "strip_chars [CHR 0x27, CHR 0x22] ?m = body i"
    using strip_with_core [of "quote_l i" is_quote "quote_r i" "body i"] q b
    by (simp add: strip_chars_def is_quote_def [abs_def])
  ultimately show ?thesis by simp
qed

lemma render_item_edges:
  assumes "well_formed_item i"
  shows "render_item i \<noteq> [] \<and> \<not> is_bracket (hd (render_item i)) \<and> \<not> is_bracket (last (render_item i))
       \<and> CHR '','' \<notin> set (render_item i)"
proof -
  from assms have b: "body i \<noteq> []" "\<not> is_bracket (hd (body i))" "\<not> is_bracket (last (body i))"
      "CHR '','' \<notin> set (body i)"
    and p: "\<forall>c \<in> set (pad_l i). is_space c" "\<forall>c \<in> set (pad_r i). is_space c"
    and q: "\<forall>c \<in> set (quote_l i). is_quote c" "\<forall>c \<in> set (quote_r i). is_quote c"
    by (auto simp: well_formed_item_def plain_def)
  have h: "\<not> is_bracket (hd (render_item i))"
    using b p q is_space_not_special is_quote_not_special
    by (cases "pad_l i"; cases "quote_l i") (auto simp: render_item_def)
  have l: "\<not> is_bracket (last (render_item i))"
    using b p q is_space_not_special is_quote_not_special
    by (cases "pad_r i" rule: rev_cases; cases "quote_r i" rule: rev_cases) (auto simp: render_item_def)
  have "CHR '','' \<notin> set (pad_l i)" "CHR '','' \<notin> set (pad_r i)"
    using p is_space_not_special by blast+
  moreover have "CHR '','' \<notin> set (quote_l i)" "CHR '','' \<notin> set (quote_r i)"
    using q is_quote_not_special by blast+
  ultimately have c: "CHR '','' \<notin> set (render_item i)"
    using b by (simp add: render_item_def)
  from b h l c show ?thesis by (simp add: render_item_def)
qed

lemma join_edges:
  assumes "xs \<noteq> []" and "\<forall>x \<in> set xs. x \<noteq> []"
  shows "join_with sep xs \<noteq> [] \<and> hd (join_with sep xs) = hd (hd xs)
       \<and> last (join_with sep xs) = last (last xs)"
  using assms
proof (induction xs rule: list_nonempty_induct)
  case (single x)
  then show ?case by (simp add: join_with_single)
next
  case (cons x xs)
  then obtain y ys where xs: "xs = y # ys" by (cases xs) auto
  from cons show ?case
    by (simp add: xs join_with_Cons2)
qed

lemma parse_list_string_items:
  assumes "es \<noteq> []" and "\<forall>i \<in> set es. well_formed_item i"
  shows "parse_list_string (''['' @ join_with '','' (map render_item es) @ '']'')
       = PList (map (\<lambda>i. PStr (body i)) es)"
proof -
  let ?xs = "map render_item es"
  let ?content = "join_with '','' ?xs"
  have xs: "?xs \<noteq> []" "\<forall>x \<in> set ?xs. x \<noteq> []" "\<forall>x \<in> set ?xs. CHR '','' \<notin> set x"
    using assms render_item_edges by auto
  from join_edges [OF xs(1,2)]
  have ne: "?content \<noteq> []" and hd: "hd ?content = hd (render_item (hd es))"
    and last: "last ?content = last (render_item (last es))"
    using assms(1) by (simp_all add: hd_map last_map)
  have "hd es \<in> set es" "last es \<in> set es" using assms(1) by simp_all
  then have e: "\<not> is_bracket (hd ?content)" "\<not> is_bracket (last ?content)"
    using assms(2) render_item_edges hd last by auto
  have "strip_chars ''[]'' (''['' @ ?content @ '']'') = ?content"
    using strip_with_core [of "''[''" is_bracket "'']''" ?content] ne e
    by (simp add: strip_chars_def is_bracket_def [abs_def])
  moreover have "split_on (CHR '','') ?content = ?xs"
    using split_on_join [OF xs(1,3)] by simp
  ultimately show ?thesis
    using ne assms(2) by (simp add: parse_list_string_def Let_def item_strip comp_def)
qed

lemma parse_list_string_empty: "parse_list_string ''[]'' = PList []"
  by (simp add: parse_list_string_def strip_chars_def strip_with_def)

lemma bracketed: "startswith ''['' (''['' @ s @ '']'') \<and> endswith '']'' (''['' @ s @ '']'')"
  by (simp add: startswith_def endswith_def)

lemma normalize_bracketed:
  assumes "filter (\<lambda>n. n \<noteq> ''self'') (parameters t) = [p]"
  shows "snd (normalize loads f t (PosParams [PStr (''['' @ s @ '']'')]))
       = Inr [(p, parse_list_string (''['' @ s @ '']''))]"
  using assms bracketed [of s]
  by (simp add: normalize_def Let_def single_value_def looks_like_list_def del: append.simps)


lemma bind_positional_zip:
  assumes "length ns = length xs" and "distinct ns" and "set ns \<inter> fst ` set acc = {}"
  shows "bind_positional (zip ns xs) acc
       = acc @ zip ns (map (\<lambda>v. case v of PStr s \<Rightarrow> (if looks_like_list v then parse_list_string s else v)
                                        | _ \<Rightarrow> v) xs)"
  using assms
proof (induction ns xs arbitrary: acc rule: list_induct2)
  case Nil
  then show ?case by simp
next
  case (Cons n ns x xs)
  let ?r = "\<lambda>v. case v of PStr s \<Rightarrow> (if looks_like_list v then parse_list_string s else v) | _ \<Rightarrow> v"
  from Cons.prems have n: "n \<notin> fst ` set acc" by auto
  have "bind_positional (zip ns xs) (acc @ [(n, ?r x)]) = (acc @ [(n, ?r x)]) @ zip ns (map ?r xs)"
  proof (rule Cons.IH)
    show "distinct ns" using Cons.prems by simp
    show "set ns \<inter> fst ` set (acc @ [(n, ?r x)]) = {}" using Cons.prems by auto
  qed
  then show ?case by (simp add: dict_set_append [OF n])
qed

lemma looks_like_list_bracketed: "looks_like_list (PStr (''['' @ s @ '']''))"
  using bracketed [of s] by (simp add: looks_like_list_def del: append.simps)

lemma looks_like_list_empty: "looks_like_list (PStr ''[]'')"
  by (simp add: looks_like_list_def startswith_def endswith_def)

text \<open>
  Claim C9, as the code has it. Let the parameter names of a tool be distinct, as those of
  a Python signature are. When as many tokens are given as the tool has parameters, and the
  call is not the special case of \<open>int_list_to_exponential_sum\<close> with one parameter, the loop
  over the pairs binds every parameter, and at every position: a string token wrapped in
  square brackets is bound as its conversion; for a token \<open>"[a, b, c]"\<close> that is the list of
  the elements, in order, with the brackets, the commas and the white space and quotes
  around each element removed, and for \<open>"[]"\<close> the empty list; a token that is not a string
  wrapped in brackets is bound as it is. In the special case a single such token is
  converted in the same way, but several tokens are folded into one list as they are: a
  bracketed token among them is not converted. The conversion inside
  \<open>int_list_to_exponential_sum\<close> does to a string argument what the loop does to a token.
\<close>

theorem bracketed_list_token:
  assumes "param_names = filter (\<lambda>n. n \<noteq> ''self'') (parameters t)"
    and "distinct param_names"
  shows "(length xs = length param_names \<and> i < length xs
            \<and> \<not> (f = ''int_list_to_exponential_sum'' \<and> length param_names = 1)
          \<longrightarrow> (\<exists>args. normalize loads f t (PosParams xs) = ([], Inr args)
                  \<and> map fst args = param_names
                  \<and> (\<forall>s. xs ! i = PStr s \<and> looks_like_list (PStr s)
                         \<longrightarrow> snd (args ! i) = parse_list_string s)
                  \<and> (\<forall>es. es \<noteq> [] \<and> (\<forall>e \<in> set es. well_formed_item e)
                           \<and> xs ! i = PStr (''['' @ join_with '','' (map render_item es) @ '']'')
                         \<longrightarrow> snd (args ! i) = PList (map (\<lambda>e. PStr (body e)) es))
                  \<and> (xs ! i = PStr ''[]'' \<longrightarrow> snd (args ! i) = PList [])
                  \<and> (\<not> looks_like_list (xs ! i) \<longrightarrow> snd (args ! i) = xs ! i)))
       \<and> (f = ''int_list_to_exponential_sum'' \<and> param_names = [p]
          \<longrightarrow> (\<forall>es. es \<noteq> [] \<and> (\<forall>e \<in> set es. well_formed_item e)
                  \<longrightarrow> snd (normalize loads f t
                              (PosParams [PStr (''['' @ join_with '','' (map render_item es) @ '']'')]))
                        = Inr [(p, PList (map (\<lambda>e. PStr (body e)) es))])
             \<and> snd (normalize loads f t (PosParams [PStr ''[]''])) = Inr [(p, PList [])]
             \<and> (length xs > 1 \<longrightarrow> snd (normalize loads f t (PosParams xs)) = Inr [(p, PList xs)]))
       \<and> (\<forall>es. es \<noteq> [] \<and> (\<forall>e \<in> set es. well_formed_item e)
            \<longrightarrow> int_list_from_string loads (''['' @ join_with '','' (map render_item es) @ '']'')
                  = Inr (PList (map (\<lambda>e. PStr (body e)) es)))
       \<and> int_list_from_string loads ''[]'' = Inr (PList [])"
proof (intro conjI impI allI)
  let ?r = "\<lambda>v. case v of PStr s \<Rightarrow> (if looks_like_list v then parse_list_string s else v) | _ \<Rightarrow> v"
  assume a: "length xs = length param_names \<and> i < length xs
            \<and> \<not> (f = ''int_list_to_exponential_sum'' \<and> length param_names = 1)"
  let ?args = "zip param_names (map ?r xs)"
  have b: "bind_positional (zip param_names xs) [] = ?args"
    using bind_positional_zip [of param_names xs "[]"] a assms(2) by simp
  have n: "normalize loads f t (PosParams xs) = ([], Inr ?args)"
    using a b assms(1) by (auto simp add: normalize_def Let_def)
  have i: "snd (?args ! i) = ?r (xs ! i)"
    using a by simp
  have 1: "map fst ?args = param_names"
    using a by simp
  have 2: "\<forall>s. xs ! i = PStr s \<and> looks_like_list (PStr s) \<longrightarrow> snd (?args ! i) = parse_list_string s"
    using i by simp
  have 3: "\<forall>es. es \<noteq> [] \<and> (\<forall>e \<in> set es. well_formed_item e)
             \<and> xs ! i = PStr (''['' @ join_with '','' (map render_item es) @ '']'')
           \<longrightarrow> snd (?args ! i) = PList (map (\<lambda>e. PStr (body e)) es)"
    using i looks_like_list_bracketed parse_list_string_items by (simp del: append.simps)
  have 4: "xs ! i = PStr ''[]'' \<longrightarrow> snd (?args ! i) = PList []"
    using i looks_like_list_empty parse_list_string_empty by simp
  have 5: "\<not> looks_like_list (xs ! i) \<longrightarrow> snd (?args ! i) = xs ! i"
    using i by (cases "xs ! i") simp_all
  from n 1 2 3 4 5
  show "\<exists>args. normalize loads f t (PosParams xs) = ([], Inr args)
          \<and> map fst args = param_names
          \<and> (\<forall>s. xs ! i = PStr s \<and> looks_like_list (PStr s)
                 \<longrightarrow> snd (args ! i) = parse_list_string s)
          \<and> (\<forall>es. es \<noteq> [] \<and> (\<forall>e \<in> set es. well_formed_item e)
                   \<and> xs ! i = PStr (''['' @ join_with '','' (map render_item es) @ '']'')
                 \<longrightarrow> snd (args ! i) = PList (map (\<lambda>e. PStr (body e)) es))
          \<and> (xs ! i = PStr ''[]'' \<longrightarrow> snd (args ! i) = PList [])
          \<and> (\<not> looks_like_list (xs ! i) \<longrightarrow> snd (args ! i) = xs ! i)"
    by (intro exI [where x = ?args] conjI)
next
  fix es
  assume s: "f = ''int_list_to_exponential_sum'' \<and> param_names = [p]"
    and a: "es \<noteq> [] \<and> (\<forall>e \<in> set es. well_formed_item e)"
  from s assms(1) have p: "filter (\<lambda>n. n \<noteq> ''self'') (parameters t) = [p]" by simp
  from a show "snd (normalize loads f t (PosParams [PStr (''['' @ join_with '','' (map render_item es) @ '']'')]))
      = Inr [(p, PList (map (\<lambda>e. PStr (body e)) es))]"
    using normalize_bracketed [OF p] parse_list_string_items by simp
next
  assume s: "f = ''int_list_to_exponential_sum'' \<and> param_names = [p]"
  with assms(1) have p: "filter (\<lambda>n. n \<noteq> ''self'') (parameters t) = [p]" by simp
  show "snd (normalize loads f t (PosParams [PStr ''[]''])) = Inr [(p, PList [])]"
    using normalize_bracketed [OF p, of loads f "[]"] by (simp add: parse_list_string_empty)
next
  assume s: "f = ''int_list_to_exponential_sum'' \<and> param_names = [p]" and l: "length xs > 1"
  with assms(1) have p: "filter (\<lambda>n. n \<noteq> ''self'') (parameters t) = [p]" by simp
  with s l show "snd (normalize loads f t (PosParams xs)) = Inr [(p, PList xs)]"
    by (simp add: normalize_def Let_def)
next
  fix es
  assume a: "es \<noteq> [] \<and> (\<forall>e \<in> set es. well_formed_item e)"
  then show "int_list_from_string loads (''['' @ join_with '','' (map render_item es) @ '']'')
      = Inr (PList (map (\<lambda>e. PStr (body e)) es))"
    using bracketed [of "join_with '','' (map render_item es)"] parse_list_string_items [of es]
    by (simp add: int_list_from_string_def startswith_def del: append.simps)
next
  show "int_list_from_string loads ''[]'' = Inr (PList [])"
    by (simp add: int_list_from_string_def startswith_def endswith_def parse_list_string_empty)
qed

theorem bracketed_list_token_witness:
  \<open>normalize (\<lambda>s. Inr PNone) ''add''
       \<lparr>parameters = [''a'', ''b''], is_coroutine_function = False, call = (\<lambda>kw. Some (Inr PNone))\<rparr>
       (PosParams [PStr ''7'', PStr ''[73, "78" ,68]''])
     = ([], Inr [(''a'', PStr ''7''), (''b'', PList [PStr ''73'', PStr ''78'', PStr ''68''])])
   \<and> normalize (\<lambda>s. Inr PNone) ''add''
       \<lparr>parameters = [''a'', ''b''], is_coroutine_function = False, call = (\<lambda>kw. Some (Inr PNone))\<rparr>
       (PosParams [PStr ''[]'', PStr ''8''])
     = ([], Inr [(''a'', PList []), (''b'', PStr ''8'')])
   \<and> snd (normalize (\<lambda>s. Inr PNone) ''int_list_to_exponential_sum''
         \<lparr>parameters = [''int_list''], is_coroutine_function = False, call = (\<lambda>kw. Some (Inr PNone))\<rparr>
         (PosParams [PStr ''[73, "78" ,68]'']))
     = Inr [(''int_list'', PList [PStr ''73'', PStr ''78'', PStr ''68''])]
   \<and> snd (normalize (\<lambda>s. Inr PNone) ''int_list_to_exponential_sum''
         \<lparr>parameters = [''int_list''], is_coroutine_function = False, call = (\<lambda>kw. Some (Inr PNone))\<rparr>
         (PosParams [PStr ''[]''])) = Inr [(''int_list'', PList [])]
   \<and> int_list_from_string (\<lambda>s. Inr PNone) ''[73, "78" ,68]''
     = Inr (PList [PStr ''73'', PStr ''78'', PStr ''68''])
   \<and> snd (normalize (\<lambda>s. Inr PNone) ''int_list_to_exponential_sum''
         \<lparr>parameters = [''int_list''], is_coroutine_function = False, call = (\<lambda>kw. Some (Inr PNone))\<rparr>
         (PosParams [PStr ''73'', PStr ''78'', PStr ''68'']))
     = Inr [(''int_list'', PList [PStr ''73'', PStr ''78'', PStr ''68''])]\<close>
proof -
  let ?add = "\<lparr>parameters = [''a'', ''b''], is_coroutine_function = False, call = (\<lambda>kw. Some (Inr PNone))\<rparr>"
  let ?sum = "\<lparr>parameters = [''int_list''], is_coroutine_function = False, call = (\<lambda>kw. Some (Inr PNone))\<rparr>"
  let ?es = \<open>[\<lparr>pad_l = [], quote_l = [], body = ''73'', quote_r = [], pad_r = []\<rparr>,
              \<lparr>pad_l = '' '', quote_l = ''"'', body = ''78'', quote_r = ''"'', pad_r = '' ''\<rparr>,
              \<lparr>pad_l = [], quote_l = [], body = ''68'', quote_r = [], pad_r = []\<rparr>]\<close>
  have w: "?es \<noteq> [] \<and> (\<forall>e \<in> set ?es. well_formed_item e)"
    by (simp add: well_formed_item_def plain_def is_space_def is_quote_def is_bracket_def)
  have r: \<open>''['' @ join_with '','' (map render_item ?es) @ '']'' = ''[73, "78" ,68]''\<close>
    by (simp add: join_with_def render_item_def)
  have l: \<open>\<not> looks_like_list (PStr ''7'')\<close> \<open>\<not> looks_like_list (PStr ''8'')\<close>
    by (simp_all add: looks_like_list_def startswith_def)
  have d: "[''a'', ''b''] = filter (\<lambda>n. n \<noteq> ''self'') (parameters ?add)" "distinct [''a'', ''b'']"
    by simp_all
  have s: "[''int_list''] = filter (\<lambda>n. n \<noteq> ''self'') (parameters ?sum)" "distinct [''int_list'']"
    by simp_all
  have e: "[''a'', ''b''] = map fst args \<Longrightarrow> args = [(''a'', snd (args ! 0)), (''b'', snd (args ! 1))]"
    for args :: kwargs
    by (cases args; cases "tl args"; cases "tl (tl args)") auto
  have 1: \<open>normalize (\<lambda>s. Inr PNone) ''add'' ?add (PosParams [PStr ''7'', PStr ''[73, "78" ,68]''])
      = ([], Inr [(''a'', PStr ''7''), (''b'', PList [PStr ''73'', PStr ''78'', PStr ''68''])])\<close>
  proof -
    let ?xs = \<open>[PStr ''7'', PStr (''['' @ join_with '','' (map render_item ?es) @ '']'')]\<close>
    from bracketed_list_token [OF d, of ?xs 0 "''add''" "\<lambda>s. Inr PNone" "''p''", THEN conjunct1]
    obtain args where a: "normalize (\<lambda>s. Inr PNone) ''add'' ?add (PosParams ?xs) = ([], Inr args)"
        "map fst args = [''a'', ''b'']" "snd (args ! 0) = PStr ''7''"
      using l by (auto simp del: append.simps)
    from bracketed_list_token [OF d, of ?xs 1 "''add''" "\<lambda>s. Inr PNone" "''p''", THEN conjunct1]
    obtain args' where b: "normalize (\<lambda>s. Inr PNone) ''add'' ?add (PosParams ?xs) = ([], Inr args')"
        "\<forall>es. es \<noteq> [] \<and> (\<forall>e \<in> set es. well_formed_item e)
              \<and> ?xs ! 1 = PStr (''['' @ join_with '','' (map render_item es) @ '']'')
            \<longrightarrow> snd (args' ! 1) = PList (map (\<lambda>e. PStr (body e)) es)"
      by (auto simp del: append.simps)
    from a(1) b(1) have "args' = args" by simp
    with b(2) [rule_format, of ?es] w have "snd (args ! 1) = PList (map (\<lambda>e. PStr (body e)) ?es)"
      by (simp del: append.simps)
    with a e [of args] have "args = [(''a'', PStr ''7''), (''b'', PList (map (\<lambda>e. PStr (body e)) ?es))]"
      by simp
    with a(1) show ?thesis unfolding r by simp
  qed
  have 2: \<open>normalize (\<lambda>s. Inr PNone) ''add'' ?add (PosParams [PStr ''[]'', PStr ''8''])
      = ([], Inr [(''a'', PList []), (''b'', PStr ''8'')])\<close>
  proof -
    let ?xs = \<open>[PStr ''[]'', PStr ''8'']\<close>
    from bracketed_list_token [OF d, of ?xs 0 "''add''" "\<lambda>s. Inr PNone" "''p''", THEN conjunct1]
    obtain args where a: "normalize (\<lambda>s. Inr PNone) ''add'' ?add (PosParams ?xs) = ([], Inr args)"
        "map fst args = [''a'', ''b'']" "snd (args ! 0) = PList []"
      by auto
    from bracketed_list_token [OF d, of ?xs 1 "''add''" "\<lambda>s. Inr PNone" "''p''", THEN conjunct1]
    obtain args' where b: "normalize (\<lambda>s. Inr PNone) ''add'' ?add (PosParams ?xs) = ([], Inr args')"
        "snd (args' ! 1) = PStr ''8''"
      using l by auto
    from a(1) b(1) have "args' = args" by simp
    with a b e [of args] have "args = [(''a'', PList []), (''b'', PStr ''8'')]"
      by simp
    with a(1) show ?thesis by simp
  qed
  note sum = bracketed_list_token [OF s, of "[]" 0 "''int_list_to_exponential_sum''" "\<lambda>s. Inr PNone"
            "''int_list''", THEN conjunct2]
  have 3: \<open>snd (normalize (\<lambda>s. Inr PNone) ''int_list_to_exponential_sum'' ?sum
                 (PosParams [PStr ''[73, "78" ,68]'']))
      = Inr [(''int_list'', PList [PStr ''73'', PStr ''78'', PStr ''68''])]\<close>
    using sum [THEN conjunct1, rule_format, OF conjI [OF refl refl], THEN conjunct1, rule_format, OF w]
    unfolding r by simp
  have 4: \<open>snd (normalize (\<lambda>s. Inr PNone) ''int_list_to_exponential_sum'' ?sum (PosParams [PStr ''[]'']))
      = Inr [(''int_list'', PList [])]\<close>
    using sum [THEN conjunct1, rule_format, OF conjI [OF refl refl], THEN conjunct2, THEN conjunct1] .
  have 5: \<open>int_list_from_string (\<lambda>s. Inr PNone) ''[73, "78" ,68]''
      = Inr (PList [PStr ''73'', PStr ''78'', PStr ''68''])\<close>
    using sum [THEN conjunct2, THEN conjunct1, rule_format, OF w] unfolding r by simp
  have 6: \<open>snd (normalize (\<lambda>s. Inr PNone) ''int_list_to_exponential_sum'' ?sum
                 (PosParams [PStr ''73'', PStr ''78'', PStr ''68'']))
      = Inr [(''int_list'', PList [PStr ''73'', PStr ''78'', PStr ''68''])]\<close>
    using bracketed_list_token [OF s, of "[PStr ''73'', PStr ''78'', PStr ''68'']" 0
            "''int_list_to_exponential_sum''" "\<lambda>s. Inr PNone" "''int_list''",
            THEN conjunct2, THEN conjunct1, rule_format, OF conjI [OF refl refl],
            THEN conjunct2, THEN conjunct2]
    by simp
  from 1 2 3 4 5 6 show ?thesis by simp
qed

theorem bracketed_token_folded_counterexample:
  "snd (normalize (\<lambda>s. Inr PNone) ''int_list_to_exponential_sum''
         \<lparr>parameters = [''int_list''], is_coroutine_function = False, call = (\<lambda>kw. Some (Inr PNone))\<rparr>
         (PosParams [PStr ''[73, 78]'', PStr ''68'']))
     = Inr [(''int_list'', PList [PStr ''[73, 78]'', PStr ''68''])]
   \<and> filter is_Call (fst (act (Action_func_map (\<lambda>n kw. Some (Inr PNone))) (\<lambda>s. Inr PNone)
         ''int_list_to_exponential_sum'' (PosParams [PStr ''[73, 78]'', PStr ''68''])))
     = [Call ''int_list_to_exponential_sum'' [(''int_list'', PList [PStr ''[73, 78]'', PStr ''68''])]]
   \<and> parse_list_string ''[73, 78]'' = PList [PStr ''73'', PStr ''78'']"
  by (simp add: act_def act_body_def normalize_def Action_func_map_def signatures_def Let_def
       invoke_def parse_list_string_def strip_chars_def strip_with_def py_strip_def is_space_def)

section \<open>Facts about the string predicates\<close>

lemma startswith_iff: "startswith p s \<longleftrightarrow> (\<exists>u. s = p @ u)"
proof
  assume "startswith p s"
  then have "take (length p) s = p" by (simp add: startswith_def)
  then have "s = p @ drop (length p) s"
    using append_take_drop_id [of "length p" s] by simp
  then show "\<exists>u. s = p @ u" ..
next
  assume "\<exists>u. s = p @ u"
  then show "startswith p s" by (auto simp: startswith_def)
qed

lemma endswith_iff: "endswith p s \<longleftrightarrow> (\<exists>u. s = u @ p)"
proof
  assume "endswith p s"
  then have "drop (length s - length p) s = p" by (simp add: endswith_def)
  then have "s = take (length s - length p) s @ p"
    using append_take_drop_id [of "length s - length p" s] by simp
  then show "\<exists>u. s = u @ p" ..
next
  assume "\<exists>u. s = u @ p"
  then show "endswith p s" by (auto simp: endswith_def)
qed

lemma startswith_Nil: "startswith [] s = True"
  by (simp add: startswith_def)

lemma startswith_Cons_Nil: "startswith (p # ps) [] = False"
  by (simp add: startswith_def)

lemma startswith_Cons_Cons: "startswith (p # ps) (x # xs) = (p = x \<and> startswith ps xs)"
  by (auto simp: startswith_def)

lemma endswith_rev: "endswith p s = startswith (rev p) (rev s)"
proof -
  have "(\<exists>u. s = u @ p) \<longleftrightarrow> (\<exists>u. rev s = rev p @ u)"
  proof
    assume "\<exists>u. s = u @ p"
    then obtain u where "s = u @ p" ..
    then have "rev s = rev p @ rev u" by simp
    then show "\<exists>u. rev s = rev p @ u" ..
  next
    assume "\<exists>u. rev s = rev p @ u"
    then obtain u where "rev s = rev p @ u" ..
    then have "rev (rev s) = rev (rev p @ u)" by simp
    then have "s = rev u @ p" by simp
    then show "\<exists>u. s = u @ p" ..
  qed
  then show ?thesis by (simp add: startswith_iff endswith_iff)
qed

lemmas str_eval = startswith_Nil startswith_Cons_Nil startswith_Cons_Cons endswith_rev

lemma startswith_append: "startswith p s \<Longrightarrow> startswith p (s @ t)"
  by (auto simp: startswith_iff)

lemma endswith_single: "endswith [c] s \<longleftrightarrow> s \<noteq> [] \<and> last s = c"
  by (cases s rule: rev_cases) (auto simp: endswith_iff)

lemma endswith_two: "endswith [c, d] s \<Longrightarrow> endswith [d] s"
proof -
  assume "endswith [c, d] s"
  then obtain u where "s = u @ [c, d]" by (auto simp: endswith_iff)
  then have "s = (u @ [c]) @ [d]" by simp
  then show ?thesis unfolding endswith_iff ..
qed

lemma contains_append: "contains sub s \<Longrightarrow> contains sub (s @ t)"
proof (induction s)
  case Nil
  then show ?case by (cases t) (simp_all add: startswith_def)
next
  case (Cons x xs)
  then show ?case
    using startswith_append [of sub "x # xs" t] by auto
qed

lemma contains_prefix: "contains (p @ q) s \<Longrightarrow> contains p s"
proof (induction s)
  case Nil
  then show ?case by simp
next
  case (Cons x xs)
  then show ?case by (auto simp: startswith_iff)
qed

section \<open>Repair of a truncated JSON text\<close>

lemma count_char_append [simp]: "count_char c (s @ t) = count_char c s + count_char c t"
  by (simp add: count_char_def)

lemma count_char_replicate [simp]: "count_char c (replicate n d) = (if c = d then n else 0)"
  by (induction n) (simp_all add: count_char_def)

lemma complete_json_truncated:
  assumes "\<not> endswith ''}'' s" and \<open>contains ''"numbers": ['' s\<close>
  shows "complete_json s = s @ closers s"
proof -
  from assms(1) have "\<not> endswith '']}'' s"
    using endswith_two by blast
  with assms show ?thesis
    by (simp add: complete_json_def closers_def Let_def)
qed

lemma complete_json_completed:
  assumes "\<not> endswith ''}'' s" and \<open>contains ''"numbers": ['' s\<close>
  shows "complete_json (s @ closers s) = s @ closers s"
proof (cases "endswith ''}'' (s @ closers s)")
  case True
  then show ?thesis by (simp add: complete_json_def)
next
  case False
  let ?a = "count_char (CHR ''['') s - count_char (CHR '']'') s"
  let ?b = "count_char (CHR ''{'') s - count_char (CHR ''}'') s"
  have b0: "?b = 0"
  proof (rule ccontr)
    assume "?b \<noteq> 0"
    then have "endswith ''}'' (s @ closers s)"
      by (simp add: endswith_single closers_def)
    with False show False by simp
  qed
  have w: "s @ closers s = s @ replicate ?a (CHR '']'')"
    using b0 by (simp add: closers_def)
  have "closers (s @ closers s) = []"
    using b0 unfolding w by (simp add: closers_def)
  moreover have "complete_json (s @ closers s) = (s @ closers s) @ closers (s @ closers s)"
    using False contains_append [OF assms(2)] by (rule complete_json_truncated)
  ultimately show ?thesis by simp
qed

text \<open>
  Claim C6, as the code has it. For a text that begins with \<open>{\<close>, does not end with
  \<open>}\<close> and contains the literal \<open>"numbers": [\<close>, the repair appends the unmatched
  \<open>]\<close> and then the unmatched \<open>}\<close>, and the tool extracts from the text what it extracts
  from the completed text, for whatever \<open>json.loads\<close> does: the \<open>numbers\<close> value when
  the completed text parses to an object, and otherwise a \<open>ValueError\<close> whose message carries
  the completed text and the text of the parse error. Before that, \<open>act\<close> hands the text on
  unchanged when it does not parse. (Both handlers format the parse error; what that raises
  would leave them.) A text that ends with \<open>}\<close>, or that does not contain the literal, is
  not completed.
\<close>

theorem json_repair:
  assumes "startswith ''{'' s" and "\<not> endswith ''}'' s" and \<open>contains ''"numbers": ['' s\<close>
  shows \<open>complete_json s = s @ closers s
       \<and> int_list_from_string loads s = int_list_from_string loads (s @ closers s)
       \<and> (loads (s @ closers s) = Inr (PDict d) \<longrightarrow>
            int_list_from_string loads s
              = Inr (case map_of d ''numbers'' of None \<Rightarrow> PList [] | Some v \<Rightarrow> v))
       \<and> (loads (s @ closers s) = Inl e \<and> exn_class e = ''JSONDecodeError'' \<longrightarrow>
            int_list_from_string loads s
              = (case str_exn e of
                   Inr m \<Rightarrow>
                     Inl (Exn ''ValueError''
                       (''Failed to parse JSON string '' @ quoted (s @ closers s) @ '': '' @ m))
                 | Inl e' \<Rightarrow> Inl e'))
       \<and> (loads s = Inl e \<and> exn_class e = ''JSONDecodeError'' \<longrightarrow>
            snd (single_value loads (PStr s))
              = (case str_exn e of Inr m \<Rightarrow> Inr (PStr s) | Inl e' \<Rightarrow> Inl e'))
       \<and> (\<forall>u. endswith ''}'' u \<or> \<not> contains ''"numbers": ['' u \<longrightarrow> complete_json u = u)\<close>
proof -
  have c: "complete_json s = s @ closers s"
    using assms(2,3) by (rule complete_json_truncated)
  have c': "complete_json (s @ closers s) = s @ closers s"
    using assms(2,3) by (rule complete_json_completed)
  have st: "startswith ''{'' (s @ closers s)"
    using assms(1) by (rule startswith_append)
  have nb: "\<not> startswith ''['' s"
    using assms(1) by (cases s) (auto simp: startswith_def)
  have nm: \<open>contains ''"numbers"'' s\<close>
    using contains_prefix [of \<open>''"numbers"''\<close> "'': [''" s] assms(3) by simp
  have outside: \<open>\<forall>u. endswith ''}'' u \<or> \<not> contains ''"numbers": ['' u \<longrightarrow> complete_json u = u\<close>
    by (auto simp: complete_json_def)
  have inside: "complete_json s = s @ closers s
       \<and> int_list_from_string loads s = int_list_from_string loads (s @ closers s)
       \<and> (loads (s @ closers s) = Inr (PDict d) \<longrightarrow>
            int_list_from_string loads s
              = Inr (case map_of d ''numbers'' of None \<Rightarrow> PList [] | Some v \<Rightarrow> v))
       \<and> (loads (s @ closers s) = Inl e \<and> exn_class e = ''JSONDecodeError'' \<longrightarrow>
            int_list_from_string loads s
              = (case str_exn e of
                   Inr m \<Rightarrow>
                     Inl (Exn ''ValueError''
                       (''Failed to parse JSON string '' @ quoted (s @ closers s) @ '': '' @ m))
                 | Inl e' \<Rightarrow> Inl e'))
       \<and> (loads s = Inl e \<and> exn_class e = ''JSONDecodeError'' \<longrightarrow>
            snd (single_value loads (PStr s))
              = (case str_exn e of Inr m \<Rightarrow> Inr (PStr s) | Inl e' \<Rightarrow> Inl e'))"
    using assms(1) st c c' nb nm
    by (auto simp: int_list_from_string_def Let_def single_value_def split: sum.splits)
  from inside outside show ?thesis by blast
qed

theorem json_repair_witness:
  \<open>int_list_from_string
     (\<lambda>t. if t = ''{"numbers": [73, 78]}'' then Inr (PDict [(''numbers'', PList [PInt 73, PInt 78])])
          else Inl (Exn ''JSONDecodeError'' ''Expecting value: line 1 column 1 (char 0)''))
     ''{"numbers": [73, 78''
   = Inr (PList [PInt 73, PInt 78])
   \<and> int_list_from_string
     (\<lambda>t. Inl (Exn ''JSONDecodeError'' (''Expecting '' @ quoted '','' @ '' delimiter: line 1 column 26 (char 25)'')))
     ''{"numbers": [1, {"a": [2''
   = Inl (Exn ''ValueError'' (''Failed to parse JSON string '' @ quoted ''{"numbers": [1, {"a": [2]]}}''
        @ '': Expecting '' @ quoted '','' @ '' delimiter: line 1 column 26 (char 25)''))
   \<and> complete_json ''{"numbers":[1,2,3'' = ''{"numbers":[1,2,3''
   \<and> complete_json ''{"numbers": [1,2,3]}'' = ''{"numbers": [1,2,3]}''\<close>
proof -
  let ?s = \<open>''{"numbers": [73, 78''\<close>
  let ?l = \<open>\<lambda>t. if t = ''{"numbers": [73, 78]}'' then Inr (PDict [(''numbers'', PList [PInt 73, PInt 78])])
          else Inl (Exn ''JSONDecodeError'' ''Expecting value: line 1 column 1 (char 0)'')\<close>
  let ?s2 = \<open>''{"numbers": [1, {"a": [2''\<close>
  let ?e2 = \<open>Exn ''JSONDecodeError'' (''Expecting '' @ quoted '','' @ '' delimiter: line 1 column 26 (char 25)'')\<close>
  have h1: "startswith ''{'' ?s" "\<not> endswith ''}'' ?s"
    by (simp_all add: str_eval)
  have h2: \<open>contains ''"numbers": ['' ?s\<close>
    by (simp add: str_eval)
  have c: \<open>?s @ closers ?s = ''{"numbers": [73, 78]}''\<close>
    by (simp add: closers_def count_char_def)
  have g1: "startswith ''{'' ?s2" "\<not> endswith ''}'' ?s2"
    by (simp_all add: str_eval)
  have g2: \<open>contains ''"numbers": ['' ?s2\<close>
    by (simp add: str_eval)
  have c2: \<open>?s2 @ closers ?s2 = ''{"numbers": [1, {"a": [2]]}}''\<close>
    by (simp add: closers_def count_char_def)
  from json_repair [OF h1 h2, of ?l "[(''numbers'', PList [PInt 73, PInt 78])]" ?e2,
      THEN conjunct2, THEN conjunct2, THEN conjunct1]
  have r1: "int_list_from_string ?l ?s = Inr (PList [PInt 73, PInt 78])"
    unfolding c by simp
  from json_repair [OF g1 g2, of "\<lambda>t. Inl ?e2" "[]" ?e2,
      THEN conjunct2, THEN conjunct2, THEN conjunct2, THEN conjunct1]
  have r2: \<open>int_list_from_string (\<lambda>t. Inl ?e2) ?s2
     = Inl (Exn ''ValueError'' (''Failed to parse JSON string '' @ quoted ''{"numbers": [1, {"a": [2]]}}''
        @ '': Expecting '' @ quoted '','' @ '' delimiter: line 1 column 26 (char 25)''))\<close>
    unfolding c2 by simp
  have o1: \<open>\<not> contains ''"numbers": ['' ''{"numbers":[1,2,3''\<close>
    by (simp add: str_eval)
  have o2: \<open>endswith ''}'' ''{"numbers": [1,2,3]}''\<close>
    by (simp add: str_eval)
  note outside = json_repair [OF h1 h2, of ?l "[]" ?e2, THEN conjunct2, THEN conjunct2, THEN conjunct2,
      THEN conjunct2, THEN conjunct2, rule_format]
  from outside [of \<open>''{"numbers":[1,2,3''\<close>] o1
  have r3: \<open>complete_json ''{"numbers":[1,2,3'' = ''{"numbers":[1,2,3''\<close>
    by blast
  from outside [of \<open>''{"numbers": [1,2,3]}''\<close>] o2
  have r4: \<open>complete_json ''{"numbers": [1,2,3]}'' = ''{"numbers": [1,2,3]}''\<close>
    by blast
  from r1 r2 r3 r4 show ?thesis by simp
qed

lemma complete_json_without_space: \<open>complete_json ''{"numbers":[1,2,3'' = ''{"numbers":[1,2,3''\<close>
  by (simp add: complete_json_def str_eval)

lemma complete_json_nested: \<open>complete_json ''{"numbers": [1, {"a": [2'' = ''{"numbers": [1, {"a": [2]]}}''\<close>
  by (simp add: complete_json_def str_eval count_char_def)

lemma complete_json_whole: \<open>complete_json ''{"numbers":[1,2,3]}'' = ''{"numbers":[1,2,3]}''\<close>
  by (simp add: complete_json_def str_eval)

theorem json_repair_counterexample:
  \<open>int_list_from_string
     (\<lambda>t. if t = ''{"numbers":[1,2,3]}'' then Inr (PDict [(''numbers'', PList [PInt 1, PInt 2, PInt 3])])
          else Inl (Exn ''JSONDecodeError'' (''Expecting '' @ quoted '','' @ '' delimiter: line 1 column 18 (char 17)'')))
     ''{"numbers":[1,2,3''
   = Inl (Exn ''ValueError'' (''Failed to parse JSON string '' @ quoted ''{"numbers":[1,2,3'' @ '': Expecting ''
        @ quoted '','' @ '' delimiter: line 1 column 18 (char 17)''))
   \<and> int_list_from_string
     (\<lambda>t. if t = ''{"numbers":[1,2,3]}'' then Inr (PDict [(''numbers'', PList [PInt 1, PInt 2, PInt 3])])
          else Inl (Exn ''JSONDecodeError'' (''Expecting '' @ quoted '','' @ '' delimiter: line 1 column 18 (char 17)'')))
     ''{"numbers":[1,2,3]}''
   = Inr (PList [PInt 1, PInt 2, PInt 3])
   \<and> int_list_from_string
     (\<lambda>t. Inl (Exn ''JSONDecodeError'' (''Expecting '' @ quoted '','' @ '' delimiter: line 1 column 26 (char 25)'')))
     ''{"numbers": [1, {"a": [2''
   = Inl (Exn ''ValueError'' (''Failed to parse JSON string '' @ quoted ''{"numbers": [1, {"a": [2]]}}''
        @ '': Expecting '' @ quoted '','' @ '' delimiter: line 1 column 26 (char 25)''))\<close>
  unfolding int_list_from_string_def Let_def complete_json_without_space complete_json_nested
    complete_json_whole
  by (simp add: str_eval)

section \<open>\<open>calculate\<close> and \<open>verify\<close>\<close>

text \<open>
  Claim C10, as the code has it. Let every call of \<open>print\<close> return. For \<open>calculate\<close>: when
  the evaluation returns a value, the f-string formats it and \<open>str\<close> returns its text, the
  tool returns that text. When the evaluation, the formatting or \<open>str\<close> raises an exception
  \<open>e\<close>: if \<open>e\<close> derives from \<open>Exception\<close> and \<open>str(e)\<close> returns \<open>m\<close>, the tool returns
  \<open>Error: m\<close>; if \<open>e\<close> derives from \<open>Exception\<close> and \<open>str(e)\<close> raises, that exception
  leaves the tool; if \<open>e\<close> does not derive from \<open>Exception\<close>, \<open>e\<close> leaves the tool. When
  the evaluation never returns, neither does the tool. For \<open>verify\<close>, whose first
  f-string formats \<open>expected\<close> before the \<open>try\<close>: when that formatting raises, the
  exception leaves the tool; when it returns, the same holds as for \<open>calculate\<close>, with the
  two conversions to \<open>float\<close> in place of the formatting and \<open>str\<close>, and with the text
  \<open>True\<close> or \<open>False\<close> of the comparison as the value returned.
\<close>

theorem calculate_verify_error_strings:
  assumes "\<forall>l. pr l = Some (Inr ())"
  shows "(\<forall>v shown s. ev expression = Some (Inr v) \<and> fmt v = Some (Inr shown) \<and> str_of v = Some (Inr s)
            \<longrightarrow> calculate ev fmt str_of pr expression = Some (Inr s))
       \<and> (\<forall>e. ev expression = Some (Inl e)
               \<or> (\<exists>v. ev expression = Some (Inr v)
                      \<and> (fmt v = Some (Inl e)
                          \<or> (\<exists>shown. fmt v = Some (Inr shown) \<and> str_of v = Some (Inl e))))
            \<longrightarrow> (\<forall>m. is_Exception e \<and> str_exn e = Inr m
                     \<longrightarrow> calculate ev fmt str_of pr expression = Some (Inr (''Error: '' @ m)))
                \<and> (\<forall>e'. is_Exception e \<and> str_exn e = Inl e'
                     \<longrightarrow> calculate ev fmt str_of pr expression = Some (Inl e'))
                \<and> (\<not> is_Exception e \<longrightarrow> calculate ev fmt str_of pr expression = Some (Inl e)))
       \<and> (ev expression = None \<longrightarrow> calculate ev fmt str_of pr expression = None)
       \<and> (\<forall>e. fmt expected = Some (Inl e)
            \<longrightarrow> verify ev fmt to_float close pr expression expected = Some (Inl e))
       \<and> (\<forall>shown. fmt expected = Some (Inr shown) \<longrightarrow>
            (\<forall>v actual expected'. ev expression = Some (Inr v) \<and> to_float v = Some (Inr actual)
                 \<and> to_float expected = Some (Inr expected')
               \<longrightarrow> verify ev fmt to_float close pr expression expected
                     = Some (Inr (if close actual expected' then ''True'' else ''False'')))
          \<and> (\<forall>e. ev expression = Some (Inl e)
                  \<or> (\<exists>v. ev expression = Some (Inr v)
                         \<and> (to_float v = Some (Inl e)
                             \<or> (\<exists>actual. to_float v = Some (Inr actual) \<and> to_float expected = Some (Inl e))))
               \<longrightarrow> (\<forall>m. is_Exception e \<and> str_exn e = Inr m
                        \<longrightarrow> verify ev fmt to_float close pr expression expected
                              = Some (Inr (''Error: '' @ m)))
                   \<and> (\<forall>e'. is_Exception e \<and> str_exn e = Inl e'
                        \<longrightarrow> verify ev fmt to_float close pr expression expected = Some (Inl e'))
                   \<and> (\<not> is_Exception e
                        \<longrightarrow> verify ev fmt to_float close pr expression expected = Some (Inl e)))
          \<and> (ev expression = None \<longrightarrow> verify ev fmt to_float close pr expression expected = None))"
proof -
  note p = assms [rule_format]
  have c1: "\<forall>v shown s. ev expression = Some (Inr v) \<and> fmt v = Some (Inr shown) \<and> str_of v = Some (Inr s)
            \<longrightarrow> calculate ev fmt str_of pr expression = Some (Inr s)"
    by (simp add: calculate_def p)
  have c2: "\<forall>e. ev expression = Some (Inl e)
               \<or> (\<exists>v. ev expression = Some (Inr v)
                      \<and> (fmt v = Some (Inl e)
                          \<or> (\<exists>shown. fmt v = Some (Inr shown) \<and> str_of v = Some (Inl e))))
            \<longrightarrow> (\<forall>m. is_Exception e \<and> str_exn e = Inr m
                     \<longrightarrow> calculate ev fmt str_of pr expression = Some (Inr (''Error: '' @ m)))
                \<and> (\<forall>e'. is_Exception e \<and> str_exn e = Inl e'
                     \<longrightarrow> calculate ev fmt str_of pr expression = Some (Inl e'))
                \<and> (\<not> is_Exception e \<longrightarrow> calculate ev fmt str_of pr expression = Some (Inl e))"
    by (auto simp add: calculate_def p error_msg_def)
  have c3: "ev expression = None \<longrightarrow> calculate ev fmt str_of pr expression = None"
    by (simp add: calculate_def p)
  have v0: "\<forall>e. fmt expected = Some (Inl e)
            \<longrightarrow> verify ev fmt to_float close pr expression expected = Some (Inl e)"
    by (simp add: verify_def p)
  have v1: "\<forall>v actual expected'. ev expression = Some (Inr v) \<and> to_float v = Some (Inr actual)
                 \<and> to_float expected = Some (Inr expected')
               \<longrightarrow> verify ev fmt to_float close pr expression expected
                     = Some (Inr (if close actual expected' then ''True'' else ''False''))"
    if "fmt expected = Some (Inr shown)" for shown
    using that by (simp add: verify_def p Let_def)
  have v2: "\<forall>e. ev expression = Some (Inl e)
                  \<or> (\<exists>v. ev expression = Some (Inr v)
                         \<and> (to_float v = Some (Inl e)
                             \<or> (\<exists>actual. to_float v = Some (Inr actual) \<and> to_float expected = Some (Inl e))))
               \<longrightarrow> (\<forall>m. is_Exception e \<and> str_exn e = Inr m
                        \<longrightarrow> verify ev fmt to_float close pr expression expected
                              = Some (Inr (''Error: '' @ m)))
                   \<and> (\<forall>e'. is_Exception e \<and> str_exn e = Inl e'
                        \<longrightarrow> verify ev fmt to_float close pr expression expected = Some (Inl e'))
                   \<and> (\<not> is_Exception e
                        \<longrightarrow> verify ev fmt to_float close pr expression expected = Some (Inl e))"
    if "fmt expected = Some (Inr shown)" for shown
    using that by (auto simp add: verify_def p error_msg_def)
  have v3: "ev expression = None \<longrightarrow> verify ev fmt to_float close pr expression expected = None"
    if "fmt expected = Some (Inr shown)" for shown
    using that by (simp add: verify_def p)
  from c1 c2 c3 v0 v1 v2 v3 show ?thesis
    by blast
qed

theorem calculate_verify_error_strings_witness:
  "calculate (\<lambda>x. if x = ''1/0'' then Some (Inl (Exn ''ZeroDivisionError'' ''division by zero''))
                   else Some (Inr (PInt 4)))
      (\<lambda>v. Some (Inr ''4'')) (\<lambda>v. Some (Inr ''4'')) (\<lambda>l. Some (Inr ())) ''2+2'' = Some (Inr ''4'')
   \<and> calculate (\<lambda>x. if x = ''1/0'' then Some (Inl (Exn ''ZeroDivisionError'' ''division by zero''))
                   else Some (Inr (PInt 4)))
      (\<lambda>v. Some (Inr ''4'')) (\<lambda>v. Some (Inr ''4'')) (\<lambda>l. Some (Inr ())) ''1/0''
       = Some (Inr ''Error: division by zero'')
   \<and> calculate (\<lambda>x. Some (Inr (PObject ''Odd'' [])))
      (\<lambda>v. Some (Inl (Exn ''RuntimeError'' ''no text''))) (\<lambda>v. Some (Inr ''4'')) (\<lambda>l. Some (Inr ()))
      ''Odd()'' = Some (Inr ''Error: no text'')
   \<and> calculate (\<lambda>x. Some (Inl (BadStr ''Odd'' (Exn ''RuntimeError'' ''no text''))))
      (\<lambda>v. Some (Inr ''4'')) (\<lambda>v. Some (Inr ''4'')) (\<lambda>l. Some (Inr ()))
      ''1/Odd()'' = Some (Inl (Exn ''RuntimeError'' ''no text''))
   \<and> calculate (\<lambda>x. Some (Inl (BaseExn ''KeyboardInterrupt'' [])))
      (\<lambda>v. Some (Inr ''4'')) (\<lambda>v. Some (Inr ''4'')) (\<lambda>l. Some (Inr ()))
      ''input()'' = Some (Inl (BaseExn ''KeyboardInterrupt'' []))
   \<and> calculate (\<lambda>x. None)
      (\<lambda>v. Some (Inr ''4'')) (\<lambda>v. Some (Inr ''4'')) (\<lambda>l. Some (Inr ()))
      ''input()'' = None
   \<and> verify (\<lambda>x. if x = ''1/0'' then Some (Inl (Exn ''ZeroDivisionError'' ''division by zero''))
                else Some (Inr (PInt 4)))
      (\<lambda>v. Some (Inr ''4'')) (\<lambda>v. Some (Inr 0x4010000000000000)) (\<lambda>a b. a = b) (\<lambda>l. Some (Inr ()))
      ''2+2'' (PStr ''4'') = Some (Inr ''True'')
   \<and> verify (\<lambda>x. if x = ''1/0'' then Some (Inl (Exn ''ZeroDivisionError'' ''division by zero''))
                else Some (Inr (PInt 4)))
      (\<lambda>v. Some (Inr ''4'')) (\<lambda>v. Some (Inr 0x4010000000000000)) (\<lambda>a b. a = b) (\<lambda>l. Some (Inr ()))
      ''1/0'' (PStr ''4'') = Some (Inr ''Error: division by zero'')
   \<and> verify (\<lambda>x. Some (Inr (PInt 4)))
      (\<lambda>v. Some (Inr ''abc''))
      (\<lambda>v. if v = PStr ''abc''
           then Some (Inl (Exn ''ValueError'' (''could not convert string to float: '' @ quoted ''abc'')))
           else Some (Inr 0x4010000000000000))
      (\<lambda>a b. a = b) (\<lambda>l. Some (Inr ()))
      ''2+2'' (PStr ''abc'')
       = Some (Inr (''Error: could not convert string to float: '' @ quoted ''abc''))
   \<and> verify (\<lambda>x. Some (Inr (PInt 4)))
      (\<lambda>v. Some (Inl (Exn ''RuntimeError'' ''no text''))) (\<lambda>v. Some (Inr 0x4010000000000000))
      (\<lambda>a b. a = b) (\<lambda>l. Some (Inr ()))
      ''2+2'' (PObject ''Odd'' []) = Some (Inl (Exn ''RuntimeError'' ''no text''))"
proof -
  let ?ev = "\<lambda>x. if x = ''1/0'' then Some (Inl (Exn ''ZeroDivisionError'' ''division by zero''))
                else Some (Inr (PInt 4))"
  let ?four = "\<lambda>v::pyval. Some (Inr ''4'' :: exn + string)"
  let ?pr = "\<lambda>l::printed. Some (Inr () :: exn + unit)"
  let ?tf = "\<lambda>v::pyval. Some (Inr 0x4010000000000000 :: exn + 64 word)"
  let ?tf' = "\<lambda>v. if v = PStr ''abc''
           then Some (Inl (Exn ''ValueError'' (''could not convert string to float: '' @ quoted ''abc'')))
           else Some (Inr (0x4010000000000000 :: 64 word))"
  let ?odd = "\<lambda>v::pyval. Some (Inl (Exn ''RuntimeError'' ''no text'') :: exn + string)"
  have p: "\<forall>l. ?pr l = Some (Inr ())"
    by simp
  show ?thesis
    using
      calculate_verify_error_strings [OF p, where ev = ?ev and expression = "''2+2''" and fmt = ?four
        and str_of = ?four and expected = "PStr ''4''" and to_float = ?tf and close = "\<lambda>a b. a = b"]
      calculate_verify_error_strings [OF p, where ev = ?ev and expression = "''1/0''" and fmt = ?four
        and str_of = ?four and expected = "PStr ''4''" and to_float = ?tf and close = "\<lambda>a b. a = b"]
      calculate_verify_error_strings [OF p, where ev = "\<lambda>x. Some (Inr (PObject ''Odd'' []))"
        and expression = "''Odd()''" and fmt = ?odd
        and str_of = ?four and expected = "PStr ''4''" and to_float = ?tf and close = "\<lambda>a b. a = b"]
      calculate_verify_error_strings [OF p,
        where ev = "\<lambda>x. Some (Inl (BadStr ''Odd'' (Exn ''RuntimeError'' ''no text'')))"
        and expression = "''1/Odd()''" and fmt = ?four
        and str_of = ?four and expected = "PStr ''4''" and to_float = ?tf and close = "\<lambda>a b. a = b"]
      calculate_verify_error_strings [OF p,
        where ev = "\<lambda>x. Some (Inl (BaseExn ''KeyboardInterrupt'' []))"
        and expression = "''input()''" and fmt = ?four
        and str_of = ?four and expected = "PStr ''4''" and to_float = ?tf and close = "\<lambda>a b. a = b"]
      calculate_verify_error_strings [OF p, where ev = "\<lambda>x. None"
        and expression = "''input()''" and fmt = ?four
        and str_of = ?four and expected = "PStr ''4''" and to_float = ?tf and close = "\<lambda>a b. a = b"]
      calculate_verify_error_strings [OF p, where ev = "\<lambda>x. Some (Inr (PInt 4))"
        and expression = "''2+2''" and fmt = "\<lambda>v. Some (Inr ''abc'')"
        and str_of = ?four and expected = "PStr ''abc''" and to_float = ?tf' and close = "\<lambda>a b. a = b"]
      calculate_verify_error_strings [OF p, where ev = "\<lambda>x. Some (Inr (PInt 4))"
        and expression = "''2+2''" and fmt = ?odd
        and str_of = ?four and expected = "PObject ''Odd'' []" and to_float = ?tf and close = "\<lambda>a b. a = b"]
    by simp
qed

theorem calculate_propagates_SystemExit_counterexample:
  \<open>calculate (\<lambda>x. if x = ''__import__("sys").exit()'' then Some (Inl (BaseExn ''SystemExit'' []))
                   else Some (Inr PNone))
      (\<lambda>v. Some (Inr ''None'')) (\<lambda>v. Some (Inr ''None'')) (\<lambda>l. Some (Inr ()))
      ''__import__("sys").exit()'' = Some (Inl (BaseExn ''SystemExit'' []))
   \<and> verify (\<lambda>x. if x = ''__import__("sys").exit()'' then Some (Inl (BaseExn ''SystemExit'' []))
                else Some (Inr PNone))
      (\<lambda>v. Some (Inr ''0'')) (\<lambda>v. Some (Inr 0)) (\<lambda>a b. a = b) (\<lambda>l. Some (Inr ()))
      ''__import__("sys").exit()'' (PInt 0) = Some (Inl (BaseExn ''SystemExit'' []))\<close>
  by (simp add: calculate_def verify_def)

section \<open>Facts about the loop body\<close>


lemma iteration_response_log [simp]: "iteration_response (log evs s) = iteration_response s"
  by (simp add: log_def)

lemma last_response_log [simp]: "last_response (log evs s) = last_response s"
  by (simp add: log_def)

lemma iteration_response_update [simp]:
  "iteration_response (s\<lparr>current_query := q\<rparr>) = iteration_response s"
  "iteration_response (s\<lparr>response_text := t\<rparr>) = iteration_response s"
  by simp_all


lemma on_error_cases:
  "on_error i e s = Raise e s
   \<or> (\<exists>e'. on_error i e s = Raise e' s)
   \<or> (\<exists>m. on_error i e s = Break (error_break i e m s))"
  by (cases "str_exn e") (auto simp add: on_error_def)

lemma on_inner_error_cases:
  "(\<exists>e'. on_inner_error i e s = Raise e' s)
   \<or> (\<exists>e' m. on_inner_error i e s = Break (error_break i e' m s))"
proof (cases "is_Exception e")
  case False
  then show ?thesis by (simp add: on_inner_error_def)
next
  case True
  show ?thesis
  proof (cases "str_exn e")
    case (Inl e')
    with True on_error_cases [of i e' s] show ?thesis
      by (auto simp add: on_inner_error_def)
  next
    case (Inr m)
    with True show ?thesis by (auto simp add: on_inner_error_def)
  qed
qed

lemma on_error_Continue [simp]: "on_error i e s \<noteq> Continue s'"
  using on_error_cases [of i e s] by auto

lemma on_error_Hang [simp]: "on_error i e s \<noteq> Hang"
  using on_error_cases [of i e s] by auto

lemma on_inner_error_Continue [simp]: "on_inner_error i e s \<noteq> Continue s'"
  using on_inner_error_cases [of i e s] by auto

lemma on_inner_error_Hang [simp]: "on_inner_error i e s \<noteq> Hang"
  using on_inner_error_cases [of i e s] by auto





lemma record_result_not_formatted:
  assumes "format_value env result = Some (Inl e)" and "is_Exception e" and "str_exn e = Inr m"
  shows "record_result env i f ps result s = Break (error_break i e m s)"
  using assms by (simp add: record_result_def on_inner_error_def)














section \<open>Facts about the loop\<close>








section \<open>Facts about concrete model texts\<close>

lemma build_query_log [simp]: "build_query env (log evs s) = build_query env s"
  by (cases "last_response s") (simp_all add: build_query_def log_def)

lemma get_decision_params:
  "get_decision text = Inr (Some f, ps) \<Longrightarrow> ps \<noteq> None"
  by (auto simp: get_decision_def split: option.splits if_splits list.splits)

lemma get_decision_without_function_call:
  "function_call_line text = None \<Longrightarrow> get_decision text = Inr (None, None)"
  by (simp add: get_decision_def)

lemma cycle_without_function_call:
  assumes "function_call_line text = None"
    and "build_query env s = Inr q"
    and "generate_decision_response env i q = Inr text"
  shows "cycle env i s =
    Break (s\<lparr>current_query := q, response_text := text,
             events := events s @
               [Info (CHR 0x0A # ''--- Iteration {} ---'') [PInt (int (i + 1))],
                Info ''Preparing to generate LLM response...'' [],
                Info ''LLM Response: {}'' [PStr text],
                Info ''Sending LLM response to the decision module...'' [],
                Info ''DEBUG: Function name: {}'' [PNone],
                Info ''DEBUG: Raw parameters: {}'' [PNone],
                Info ''Decision is made, time to take ACTION - {}'' [PNone],
                Info ''FINAL_ANSWER received, ending iterations.'' []],
             iteration_response := iteration_response s @ [''FINAL_ANSWER received: '' @ text]\<rparr>)"
  using assms
  by (simp add: cycle_def Let_def get_decision_without_function_call dispatch_def
      opt_str_def opt_list_def) (simp add: log_def)

lemma is_space_eval:
  "is_space c = (c = CHR 0x09 \<or> c = CHR 0x0A \<or> c = CHR 0x0B \<or> c = CHR 0x0C \<or> c = CHR 0x0D
     \<or> c = CHR 0x1C \<or> c = CHR 0x1D \<or> c = CHR 0x1E \<or> c = CHR 0x1F \<or> c = CHR 0x20 \<or> c = CHR 0x85
     \<or> c = CHR 0xA0)"
  by (simp add: is_space_def)

lemma no_directive_text:
  "function_call_line ''I am not sure what to do'' = None"
  "\<not> contains ''FINAL_ANSWER:'' ''I am not sure what to do''"
  by (simp_all add: function_call_line_def py_strip_def strip_with_def is_space_eval str_eval)

lemma final_answer_text:
  "function_call_line ''FINAL_ANSWER: 42'' = None"
  "contains ''FINAL_ANSWER:'' ''FINAL_ANSWER: 42''"
  by (simp_all add: function_call_line_def py_strip_def strip_with_def is_space_eval str_eval)







section \<open>Model text without a directive\<close>

text \<open>
  Claim C1, as the code has it. For every model text without a \<open>FUNCTION_CALL:\<close> line,
  whether or not it contains \<open>FINAL_ANSWER:\<close>, the parser returns the pair
  \<open>(None, None)\<close>, and the loop body then logs that the final answer was received, appends
  the entry \<open>FINAL_ANSWER received: <text>\<close> to the trace and leaves the loop, without
  executing a tool.
\<close>

theorem unrecognized_output_ends_as_final_answer:
  assumes "function_call_line text = None"
    and "build_query env s = Inr q"
    and "generate_decision_response env i q = Inr text"
  shows "get_decision text = Inr (None, None)
       \<and> (\<exists>s'. cycle env i s = Break s'
              \<and> iteration_response s' = iteration_response s @ [''FINAL_ANSWER received: '' @ text]
              \<and> filter is_Call (events s') = filter is_Call (events s)
              \<and> last (events s') = Info ''FINAL_ANSWER received, ending iterations.'' [])"
  using cycle_without_function_call [OF assms] get_decision_without_function_call [OF assms(1)]
  by simp

theorem unrecognized_output_ends_as_final_answer_witness:
  "get_decision ''I am not sure what to do'' = Inr (None, None)
   \<and> (\<exists>s'. cycle \<lparr>action_func_map = Action_func_map (\<lambda>n kw. Some (Inr PNone)),
                  json_loads = (\<lambda>t. Inr PNone),
                  generate_decision_response = (\<lambda>i q. Inr ''I am not sure what to do''),
                  query = ''Add two numbers 8 and 9'',
                  facts_json = Inr ''{}'',
                  user_preference = ''user likes blue color and bold text'',
                  py_str = (\<lambda>v. Some (Inr ''None'')),
                  py_format = (\<lambda>v. Some (Inr ''None''))\<rparr>
                3 (initial_state\<lparr>last_response := Some (PStr ''17'')\<rparr>) = Break s'
          \<and> iteration_response s' = [''FINAL_ANSWER received: I am not sure what to do'']
          \<and> filter is_Call (events s') = [])"
proof -
  let ?env = "\<lparr>action_func_map = Action_func_map (\<lambda>n kw. Some (Inr PNone)),
                  json_loads = (\<lambda>t. Inr PNone),
                  generate_decision_response = (\<lambda>i q. Inr ''I am not sure what to do''),
                  query = ''Add two numbers 8 and 9'',
                  facts_json = Inr ''{}'',
                  user_preference = ''user likes blue color and bold text'',
                  py_str = (\<lambda>v. Some (Inr ''None'')),
                  py_format = (\<lambda>v. Some (Inr ''None''))\<rparr>"
  let ?s = "initial_state\<lparr>last_response := Some (PStr ''17'')\<rparr>"
  obtain q where q: "build_query ?env ?s = Inr q"
    by (simp add: build_query_def initial_state_def)
  have g: "generate_decision_response ?env 3 q = Inr ''I am not sure what to do''"
    by simp
  show ?thesis
    using unrecognized_output_ends_as_final_answer [OF no_directive_text(1) q g]
    by (auto simp: initial_state_def)
qed

theorem unrecognized_output_counterexample:
  "function_call_line ''I am not sure what to do'' = None
   \<and> \<not> contains ''FINAL_ANSWER:'' ''I am not sure what to do''
   \<and> get_decision ''I am not sure what to do'' = get_decision ''FINAL_ANSWER: 42''
   \<and> (case cycle \<lparr>action_func_map = Action_func_map (\<lambda>n kw. Some (Inr PNone)),
                  json_loads = (\<lambda>t. Inr PNone),
                  generate_decision_response = (\<lambda>i q. Inr ''I am not sure what to do''),
                  query = ''Add two numbers 8 and 9'',
                  facts_json = Inr ''{}'',
                  user_preference = ''user likes blue color and bold text'',
                  py_str = (\<lambda>v. Some (Inr ''None'')),
                  py_format = (\<lambda>v. Some (Inr ''None''))\<rparr> 0 initial_state of
         Break s' \<Rightarrow> iteration_response s' = [''FINAL_ANSWER received: I am not sure what to do'']
                     \<and> last (events s') = Info ''FINAL_ANSWER received, ending iterations.'' []
       | _ \<Rightarrow> False)"
proof -
  let ?env = "\<lparr>action_func_map = Action_func_map (\<lambda>n kw. Some (Inr PNone)),
                  json_loads = (\<lambda>t. Inr PNone),
                  generate_decision_response = (\<lambda>i q. Inr ''I am not sure what to do''),
                  query = ''Add two numbers 8 and 9'',
                  facts_json = Inr ''{}'',
                  user_preference = ''user likes blue color and bold text'',
                  py_str = (\<lambda>v. Some (Inr ''None'')),
                  py_format = (\<lambda>v. Some (Inr ''None''))\<rparr>"
  obtain q where q: "build_query ?env initial_state = Inr q"
    by (simp add: build_query_def initial_state_def)
  have g: "generate_decision_response ?env 0 q = Inr ''I am not sure what to do''"
    by simp
  have d: "get_decision ''I am not sure what to do'' = get_decision ''FINAL_ANSWER: 42''"
    by (simp add: get_decision_without_function_call no_directive_text final_answer_text)
  show ?thesis
    unfolding cycle_without_function_call [OF no_directive_text(1) q g]
    using no_directive_text d by (simp add: initial_state_def)
qed

section \<open>The iteration budget\<close>




end
